theory Spec2Isabelle
  imports Complex_Main "HOL-Library.Char_ord" "HOL-Library.List_Lexorder"
    "HOL-Library.Product_Lexorder"
begin

section \<open>Data model shared by the historical-processing scripts\<close>

text \<open>
  The embedding follows the Python sources under \<^verbatim>\<open>l3-data-pipelines/pipeline\<close>:
  \<^verbatim>\<open>scratch/analyze_historical_duckdb.py\<close>, \<^verbatim>\<open>scratch/clean_historical_pandas.py\<close>,
  \<^verbatim>\<open>scratch/analyze_historical_pandas.py\<close> and \<^verbatim>\<open>src/downloadModelsData.py\<close>.
  File names and model ids are ASCII strings; Python's unbounded integers are \<open>int\<close>;
  a nullable cell (SQL \<open>NULL\<close>, pandas \<open>NaN\<close>) is \<open>None\<close>; a raised exception is the
  \<open>Inl\<close> branch of a sum. Strings are ordered by code point (\<open>Char_ord\<close>,
  \<open>List_Lexorder\<close>), as Python's \<open>sorted\<close> and DuckDB's default collation do, and
  tuples of sort keys lexicographically (\<open>Product_Lexorder\<close>).
\<close>

datatype error =
    ValueError string
  | FileNotFoundError string
  | TypeError string
  | ConversionException string
  | BinderException string

text \<open>
  One row of a snapshot file. A parquet file is its column names with its rows; the cell
  of a column the file does not have is never read.
\<close>

record parquet_row =
  pq_id :: "string option"
  pq_likes :: "int option"
  pq_downloads :: "int option"
  pq_downloadsAllTime :: "int option"

record parquet_file =
  pq_columns :: "string list"
  pq_rows :: "parquet_row list"

text \<open>A directory listing: file names with their contents.\<close>

type_synonym directory = "(string \<times> parquet_file) list"

subsection \<open>File discovery: \<open>data_dir.glob("models-*.parquet")\<close>, sorted\<close>

definition glob_models_parquet :: "string \<Rightarrow> bool" where
  "glob_models_parquet name \<longleftrightarrow>
     length ''models-'' + length ''.parquet'' \<le> length name \<and>
     take (length ''models-'') name = ''models-'' \<and>
     drop (length name - length ''.parquet'') name = ''.parquet''"

definition sorted_glob :: "directory \<Rightarrow> directory" where
  "sorted_glob dir = sort_key fst (filter (\<lambda>f. glob_models_parquet (fst f)) dir)"

subsection \<open>Regular expressions of the two file-name parsers\<close>

definition is_digit :: "char \<Rightarrow> bool" where
  "is_digit c \<longleftrightarrow> c \<in> set ''0123456789''"

definition is_hex_lower :: "char \<Rightarrow> bool" where
  "is_hex_lower c \<longleftrightarrow> c \<in> set ''abcdef0123456789''"

text \<open>\<^verbatim>\<open>models-(\d{8})-\<close> matched at the start of the text; the result is group 1.\<close>

definition match_models_date :: "string \<Rightarrow> string option" where
  "match_models_date s =
     (let date_str = take 8 (drop 7 s) in
      if take 7 s = ''models-'' \<and> length date_str = 8 \<and> list_all is_digit date_str
         \<and> take 1 (drop 15 s) = ''-''
      then Some date_str else None)"

text \<open>\<^verbatim>\<open>re.search\<close>: the leftmost position at which the pattern matches.\<close>

fun re_search_models_date :: "string \<Rightarrow> string option" where
  "re_search_models_date [] = None"
| "re_search_models_date (c # cs) =
     (case match_models_date (c # cs) of
        Some date_str \<Rightarrow> Some date_str
      | None \<Rightarrow> re_search_models_date cs)"

text \<open>
  \<^verbatim>\<open>re.match(r'models-(\d{8})-[a-f0-9]+\.parquet', filename)\<close>: anchored at the start
  only. The greedy \<^verbatim>\<open>[a-f0-9]+\<close> takes every hexadecimal character that follows; giving
  some back cannot help, because the next pattern character is a dot.
\<close>

definition re_match_snapshot :: "string \<Rightarrow> string option" where
  "re_match_snapshot s =
     (let date_str = take 8 (drop 7 s);
          sha = takeWhile is_hex_lower (drop 16 s);
          rest = dropWhile is_hex_lower (drop 16 s) in
      if take 7 s = ''models-'' \<and> length date_str = 8 \<and> list_all is_digit date_str
         \<and> take 1 (drop 15 s) = ''-'' \<and> sha \<noteq> [] \<and> take 8 rest = ''.parquet''
      then Some date_str else None)"

subsection \<open>Calendar dates\<close>

definition digit_val :: "char \<Rightarrow> nat" where
  "digit_val c = of_char c - 48"

definition nat_of_digits :: "string \<Rightarrow> nat" where
  "nat_of_digits ds = foldl (\<lambda>a c. 10 * a + digit_val c) 0 ds"

definition is_leap :: "nat \<Rightarrow> bool" where
  "is_leap y \<longleftrightarrow> y mod 4 = 0 \<and> (y mod 100 \<noteq> 0 \<or> y mod 400 = 0)"

definition days_in_month :: "nat \<Rightarrow> nat \<Rightarrow> nat" where
  "days_in_month y m =
     (if m = 2 then (if is_leap y then 29 else 28)
      else if m \<in> {4, 6, 9, 11} then 30 else 31)"

text \<open>
  \<^verbatim>\<open>datetime.strptime(date_str, "%Y%m%d")\<close> on eight digits: four digits of year, a month
  \<open>01..12\<close>, a day \<open>01..31\<close> that exists in that month, and a year of at least 1. Any other
  text raises \<^verbatim>\<open>ValueError\<close>.
\<close>

definition strptime_Ymd :: "string \<Rightarrow> error + (nat \<times> nat \<times> nat)" where
  "strptime_Ymd date_str =
     (let y = nat_of_digits (take 4 date_str);
          m = nat_of_digits (take 2 (drop 4 date_str));
          d = nat_of_digits (take 2 (drop 6 date_str)) in
      if 1 \<le> y \<and> 1 \<le> m \<and> m \<le> 12 \<and> 1 \<le> d \<and> d \<le> days_in_month y m
      then Inr (y, m, d)
      else Inl (ValueError (''time data '' @ date_str @ '' does not match format %Y%m%d'')))"

text \<open>The rendering \<^verbatim>\<open>YYYY-MM-DD\<close> of the eight digits (both scripts produce it).\<close>

definition dashed :: "string \<Rightarrow> string" where
  "dashed date_str =
     take 4 date_str @ ''-'' @ take 2 (drop 4 date_str) @ ''-'' @ take 2 (drop 6 date_str)"

section \<open>The DuckDB engine: \<^verbatim>\<open>analyze_historical_duckdb.py\<close>\<close>

definition extract_date_from_filename :: "string \<Rightarrow> string option" where
  "extract_date_from_filename filename =
     (case re_search_models_date filename of
        Some date_str \<Rightarrow> Some (dashed date_str)
      | None \<Rightarrow> None)"

text \<open>
  The temporary tables. \<open>'d\<close> is DuckDB's \<^verbatim>\<open>DATE\<close>; the cast \<^verbatim>\<open>'...'::DATE\<close> of the
  generated literal is a parameter \<open>to_date\<close> of the engine (\<open>None\<close>: the cast raises).
  The \<^verbatim>\<open>WHERE\<close> clause of the load query leaves no \<^verbatim>\<open>NULL\<close> in \<^verbatim>\<open>all_snapshots\<close>, so
  its columns are not optional.
\<close>

record 'd snapshot_row =
  snapshot_date :: 'd
  model_id :: string
  author :: string
  downloadsAllTime :: int

record 'd daily_row = "'d snapshot_row" +
  daily_downloads :: "int option"

record 'd author_row =
  agg_snapshot_date :: 'd
  agg_author :: string
  n_models :: nat
  total_daily_downloads :: int
  avg_daily_downloads_per_model :: real
  total_cumulative_downloads :: int

text \<open>\<^verbatim>\<open>SPLIT_PART(id, '/', 1)\<close>: the text before the first separator, all of it if none.\<close>

definition split_part_1 :: "string \<Rightarrow> string" where
  "split_part_1 s = takeWhile (\<lambda>c. c \<noteq> CHR ''/'') s"

text \<open>The \<^verbatim>\<open>SELECT ... FROM file WHERE ...\<close> of one snapshot file.\<close>

definition select_snapshot :: "'d \<Rightarrow> parquet_row list \<Rightarrow> 'd snapshot_row list" where
  "select_snapshot date rs =
     List.map_filter
       (\<lambda>r. case (pq_id r, pq_downloadsAllTime r) of
              (Some i, Some n) \<Rightarrow>
                if split_part_1 i \<noteq> ''''
                then Some \<lparr>snapshot_date = date, model_id = i, author = split_part_1 i,
                           downloadsAllTime = n\<rparr>
                else None
            | _ \<Rightarrow> None)
       rs"

text \<open>
  The loop over the files (lines 70-86): one query per file whose name gives a date, as
  the date literal, the file name and the file; a file whose name gives none adds no
  query.
\<close>

definition union_queries :: "directory \<Rightarrow> (string \<times> string \<times> parquet_file) list" where
  "union_queries parquet_files =
     List.map_filter
       (\<lambda>f. case extract_date_from_filename (fst f) of
              None \<Rightarrow> None
            | Some date \<Rightarrow> Some (date, fst f, snd f))
       parquet_files"

text \<open>
  Running the \<^verbatim>\<open>UNION ALL\<close> of the queries (line 94), one statement. Every branch is
  bound before any row is read: a file without one of the two selected columns makes the
  statement fail (the first such file is the one named). The date literal of a branch is
  cast for the rows that pass its \<^verbatim>\<open>WHERE\<close> clause, so a literal that does not cast
  makes the statement fail only when its file has such a row.
\<close>

definition passes_where :: "parquet_row \<Rightarrow> bool" where
  "passes_where r \<longleftrightarrow>
     (case (pq_id r, pq_downloadsAllTime r) of
        (Some i, Some n) \<Rightarrow> split_part_1 i \<noteq> []
      | _ \<Rightarrow> False)"

fun cast_union ::
  "(string \<Rightarrow> 'd option) \<Rightarrow> (string \<times> string \<times> parquet_file) list
     \<Rightarrow> error + 'd snapshot_row list" where
  "cast_union to_date [] = Inr []"
| "cast_union to_date ((date, name, file) # queries) =
     (if list_ex passes_where (pq_rows file)
      then (case to_date date of
              None \<Rightarrow> Inl (ConversionException date)
            | Some d \<Rightarrow>
                (case cast_union to_date queries of
                   Inl e \<Rightarrow> Inl e
                 | Inr tbl \<Rightarrow> Inr (select_snapshot d (pq_rows file) @ tbl)))
      else cast_union to_date queries)"

definition execute_union ::
  "(string \<Rightarrow> 'd option) \<Rightarrow> (string \<times> string \<times> parquet_file) list
     \<Rightarrow> error + 'd snapshot_row list" where
  "execute_union to_date queries =
     (case find (\<lambda>q. \<not> (''id'' \<in> set (pq_columns (snd (snd q)))
                        \<and> ''downloadsAllTime'' \<in> set (pq_columns (snd (snd q))))) queries of
        Some q \<Rightarrow> Inl (BinderException (fst (snd q)))
      | None \<Rightarrow> cast_union to_date queries)"

text \<open>
  \<^verbatim>\<open>LAG(x) OVER (PARTITION BY id ORDER BY snapshot_date)\<close> on one partition already in
  window order: \<^verbatim>\<open>NULL\<close> for the first row, the previous row's value after it.
\<close>

definition lag :: "'a list \<Rightarrow> 'a option list" where
  "lag xs = (case xs of [] \<Rightarrow> [] | _ # _ \<Rightarrow> None # map Some (butlast xs))"

definition with_daily :: "'d snapshot_row \<Rightarrow> int option \<Rightarrow> 'd daily_row" where
  "with_daily r prev =
     snapshot_row.extend r
       \<lparr>daily_downloads = (case prev of None \<Rightarrow> None
                            | Some p \<Rightarrow> Some (downloadsAllTime r - p))\<rparr>"

text \<open>
  The rows of one model in window order. Rows of one model with equal dates keep their
  order in the table (SQL leaves the order of such peers open).
\<close>

definition window_partition :: "('d::linorder) snapshot_row list \<Rightarrow> string \<Rightarrow> 'd snapshot_row list" where
  "window_partition tbl i = sort_key snapshot_date (filter (\<lambda>r. model_id r = i) tbl)"

definition window_rows :: "('d::linorder) snapshot_row list \<Rightarrow> string \<Rightarrow> 'd daily_row list" where
  "window_rows tbl i =
     (let part = window_partition tbl i
      in map2 with_daily part (lag (map downloadsAllTime part)))"

text \<open>Step 2 (lines 105-118): the window function, then \<^verbatim>\<open>ORDER BY id, snapshot_date\<close>.\<close>

definition daily_model_downloads :: "('d::linorder) snapshot_row list \<Rightarrow> 'd daily_row list" where
  "daily_model_downloads all_snapshots =
     sort_key (\<lambda>r. (model_id r, snapshot_date r))
       (concat (map (window_rows all_snapshots) (remdups (map model_id all_snapshots))))"

text \<open>
  Step 3 (lines 126-140). The \<^verbatim>\<open>WHERE\<close> clause keeps the rows whose difference is
  neither \<^verbatim>\<open>NULL\<close> nor negative; every aggregate of the query, the distinct count
  included, is taken over the rows that are left.
\<close>

definition nonneg_delta :: "'d daily_row \<Rightarrow> bool" where
  "nonneg_delta r \<longleftrightarrow> (case daily_downloads r of None \<Rightarrow> False | Some v \<Rightarrow> 0 \<le> v)"

definition group_key :: "'d daily_row \<Rightarrow> 'd \<times> string" where
  "group_key r = (snapshot_date r, author r)"

text \<open>
  The aggregates of one group. Its rows passed the \<^verbatim>\<open>WHERE\<close> clause, so the column
  \<^verbatim>\<open>daily_downloads\<close> is read with \<open>the\<close>; \<^verbatim>\<open>AVG\<close> is taken exactly.
\<close>

definition aggregate_group :: "'d \<times> string \<Rightarrow> 'd daily_row list \<Rightarrow> 'd author_row" where
  "aggregate_group k grp =
     \<lparr>agg_snapshot_date = fst k, agg_author = snd k,
      n_models = length (remdups (map model_id grp)),
      total_daily_downloads = sum_list (map (\<lambda>r. the (daily_downloads r)) grp),
      avg_daily_downloads_per_model =
        real_of_int (sum_list (map (\<lambda>r. the (daily_downloads r)) grp)) / real (length grp),
      total_cumulative_downloads = sum_list (map downloadsAllTime grp)\<rparr>"

definition author_daily_downloads :: "('d::linorder) daily_row list \<Rightarrow> 'd author_row list" where
  "author_daily_downloads daily =
     (let kept = filter nonneg_delta daily;
          groups = map (\<lambda>k. aggregate_group k (filter (\<lambda>r. group_key r = k) kept))
                     (remdups (map group_key kept))
      in sort_key (\<lambda>g. (agg_snapshot_date g, - total_daily_downloads g)) groups)"

text \<open>
  \<^verbatim>\<open>process_historical_data\<close>: the run, with the two tables it builds as its result
  (writing the CSV and the printed summaries are left out).
\<close>

record 'd duckdb_tables =
  tbl_daily_model_downloads :: "'d daily_row list"
  tbl_author_daily_downloads :: "'d author_row list"

definition process_historical_data ::
  "(string \<Rightarrow> ('d::linorder) option) \<Rightarrow> string \<Rightarrow> directory \<Rightarrow> error + 'd duckdb_tables" where
  "process_historical_data to_date data_dir dir =
     (let parquet_files = sorted_glob dir in
      if length parquet_files = 0
      then Inl (ValueError (''No parquet files found in '' @ data_dir))
      else
        (let queries = union_queries parquet_files in
         if queries = [] then Inl (ValueError ''No valid dates extracted from filenames'')
         else
           (case execute_union to_date queries of
              Inl e \<Rightarrow> Inl e
            | Inr all_snapshots \<Rightarrow>
                (let daily = daily_model_downloads all_snapshots
                 in Inr \<lparr>tbl_daily_model_downloads = daily,
                         tbl_author_daily_downloads = author_daily_downloads daily\<rparr>))))"

text \<open>
  A reference \<^verbatim>\<open>DATE\<close>: the triple (year, month, day) in its lexicographic order, cast
  from \<^verbatim>\<open>YYYY-MM-DD\<close> when the day exists in the calendar.
\<close>

definition iso_date :: "string \<Rightarrow> (nat \<times> nat \<times> nat) option" where
  "iso_date s =
     (case strptime_Ymd (take 4 s @ take 2 (drop 5 s) @ take 2 (drop 8 s)) of
        Inl e \<Rightarrow> None
      | Inr d \<Rightarrow> Some d)"

section \<open>The pandas cleaner: \<^verbatim>\<open>clean_historical_pandas.py\<close>\<close>

text \<open>
  \<^verbatim>\<open>parse_snapshot_date\<close>. The date object is printed back with \<^verbatim>\<open>%Y-%m-%d\<close>, which for
  a year of four digits is the dashed form of the digits that were read.
\<close>

definition parse_snapshot_date :: "string \<Rightarrow> error + string" where
  "parse_snapshot_date filename =
     (case re_match_snapshot filename of
        None \<Rightarrow> Inl (ValueError (''Filename '' @ filename @ '' does not match expected format''))
      | Some date_str \<Rightarrow>
          (case strptime_Ymd date_str of
             Inl e \<Rightarrow> Inl e
           | Inr date_obj \<Rightarrow> Inr (dashed date_str)))"

record csv_row =
  csv_id :: "string option"
  csv_likes :: "int option"
  csv_downloads :: "int option"
  csv_downloadsAllTime :: "int option"
  csv_snapshot_date :: string

definition process_snapshot_file :: "string \<Rightarrow> parquet_file \<Rightarrow> string \<Rightarrow> error + csv_row list" where
  "process_snapshot_file file_path file date =
     (if ''id'' \<notin> set (pq_columns file)
      then Inl (ValueError (''File '' @ file_path @ '' missing required '' @ [CHR 0x27]
                  @ ''id'' @ [CHR 0x27] @ '' column''))
      else Inr (map (\<lambda>r.
             \<lparr>csv_id = pq_id r,
              csv_likes = (if ''likes'' \<in> set (pq_columns file) then pq_likes r else None),
              csv_downloads =
                (if ''downloads'' \<in> set (pq_columns file) then pq_downloads r else None),
              csv_downloadsAllTime =
                (if ''downloadsAllTime'' \<in> set (pq_columns file)
                 then pq_downloadsAllTime r else None),
              csv_snapshot_date = date\<rparr>)
           (pq_rows file)))"

text \<open>The loop over the snapshot files (lines 131-146): the first exception ends the run.\<close>

fun process_snapshots :: "string \<Rightarrow> directory \<Rightarrow> error + csv_row list list" where
  "process_snapshots input_dir [] = Inr []"
| "process_snapshots input_dir ((name, file) # files) =
     (case parse_snapshot_date name of
        Inl e \<Rightarrow> Inl e
      | Inr date \<Rightarrow>
          (case process_snapshot_file (input_dir @ ''/'' @ name) file date of
             Inl e \<Rightarrow> Inl e
           | Inr df \<Rightarrow>
               (case process_snapshots input_dir files of
                  Inl e \<Rightarrow> Inl e
                | Inr all_data \<Rightarrow> Inr (df # all_data))))"

text \<open>
  \<^verbatim>\<open>clean_historical_data\<close>; the listing is \<open>None\<close> when the input directory does not
  exist. The result is the combined frame that is written to the CSV file.
\<close>

definition clean_historical_data :: "string \<Rightarrow> directory option \<Rightarrow> error + csv_row list" where
  "clean_historical_data input_dir listing =
     (case listing of
        None \<Rightarrow> Inl (FileNotFoundError (''Input directory not found: '' @ input_dir))
      | Some dir \<Rightarrow>
          (let parquet_files = sorted_glob dir in
           if parquet_files = []
           then Inl (ValueError (''No parquet files found in '' @ input_dir))
           else (case process_snapshots input_dir parquet_files of
                   Inl e \<Rightarrow> Inl e
                 | Inr all_data \<Rightarrow> Inr (concat all_data))))"

section \<open>The pandas engine: \<^verbatim>\<open>analyze_historical_pandas.py\<close>\<close>

definition extract_author :: "string \<Rightarrow> string" where
  "extract_author m =
     (if CHR ''/'' \<in> set m then takeWhile (\<lambda>c. c \<noteq> CHR ''/'') m else m)"

text \<open>
  A row of \<^verbatim>\<open>df_subset\<close>. The dates are the texts of the CSV column and compare as
  texts; the counter column is a float column that may hold \<^verbatim>\<open>NaN\<close>, exact on the
  integers it holds here.
\<close>

record df_row =
  df_id :: string
  df_downloadsAllTime :: "int option"
  df_snapshot_date :: string
  df_author :: string
  df_daily_downloads :: "int option"

definition minus_nan :: "int option \<Rightarrow> int option \<Rightarrow> int option" where
  "minus_nan a b = (case (a, b) of (Some x, Some y) \<Rightarrow> Some (x - y) | _ \<Rightarrow> None)"

text \<open>
  \<^verbatim>\<open>groupby('id')['downloadsAllTime'].diff()\<close>: each row minus the previous row of the
  same id in frame order; \<open>prev\<close> holds the last value seen for each id.
\<close>

fun groupby_diff :: "(string \<rightharpoonup> int option) \<Rightarrow> df_row list \<Rightarrow> df_row list" where
  "groupby_diff prev [] = []"
| "groupby_diff prev (r # rs) =
     r\<lparr>df_daily_downloads :=
         (case prev (df_id r) of
            None \<Rightarrow> None
          | Some p \<Rightarrow> minus_nan (df_downloadsAllTime r) p)\<rparr>
     # groupby_diff (prev(df_id r \<mapsto> df_downloadsAllTime r)) rs"

definition fillna :: "df_row \<Rightarrow> df_row" where
  "fillna r =
     (case df_daily_downloads r of
        None \<Rightarrow> r\<lparr>df_daily_downloads := df_downloadsAllTime r\<rparr>
      | Some v \<Rightarrow> r)"

definition clamp_negative :: "df_row \<Rightarrow> df_row" where
  "clamp_negative r =
     (case df_daily_downloads r of
        None \<Rightarrow> r
      | Some v \<Rightarrow> if v < 0 then r\<lparr>df_daily_downloads := Some 0\<rparr> else r)"

record pd_author_row =
  pd_author :: string
  pd_snapshot_date :: string
  pd_total_daily_downloads :: int

text \<open>
  \<^verbatim>\<open>groupby(['author', 'snapshot_date'])['daily_downloads'].sum().reset_index()\<close>: the
  groups in the order of their keys; \<^verbatim>\<open>NaN\<close> is skipped by the sum.
\<close>

definition nan_sum :: "int option list \<Rightarrow> int" where
  "nan_sum vs = sum_list (List.map_filter (\<lambda>v. v) vs)"

definition groupby_sum :: "df_row list \<Rightarrow> pd_author_row list" where
  "groupby_sum df =
     map (\<lambda>k. \<lparr>pd_author = fst k, pd_snapshot_date = snd k,
                pd_total_daily_downloads =
                  nan_sum (map df_daily_downloads
                    (filter (\<lambda>r. (df_author r, df_snapshot_date r) = k) df))\<rparr>)
       (sort (remdups (map (\<lambda>r. (df_author r, df_snapshot_date r)) df)))"

record pandas_tables =
  df_subset :: "df_row list"
  author_daily :: "pd_author_row list"

text \<open>
  Lines 88-92: the three columns that are used, with the author. \<^verbatim>\<open>extract_author\<close>
  tests \<^verbatim>\<open>'/' in model_id\<close>, which raises \<^verbatim>\<open>TypeError\<close> on a missing id (a float
  \<^verbatim>\<open>NaN\<close>).
\<close>

fun with_authors :: "csv_row list \<Rightarrow> error + df_row list" where
  "with_authors [] = Inr []"
| "with_authors (r # rs) =
     (case csv_id r of
        None \<Rightarrow> Inl (TypeError (''argument of type '' @ [CHR 0x27] @ ''float'' @ [CHR 0x27]
                        @ '' is not iterable''))
      | Some i \<Rightarrow>
          (case with_authors rs of
             Inl e \<Rightarrow> Inl e
           | Inr frame \<Rightarrow>
               Inr (\<lparr>df_id = i, df_downloadsAllTime = csv_downloadsAllTime r,
                     df_snapshot_date = csv_snapshot_date r, df_author = extract_author i,
                     df_daily_downloads = None\<rparr> # frame)))"

text \<open>Line 96: \<^verbatim>\<open>sort_values(['id', 'snapshot_date'])\<close>.\<close>

definition sort_values :: "df_row list \<Rightarrow> df_row list" where
  "sort_values frame = sort_key (\<lambda>r. (df_id r, df_snapshot_date r)) frame"

text \<open>Line 100: the column \<^verbatim>\<open>daily_downloads\<close> as the difference within each id.\<close>

definition daily_diff :: "df_row list \<Rightarrow> df_row list" where
  "daily_diff frame = groupby_diff Map.empty (sort_values frame)"

text \<open>Lines 103 and 107: the fill of the first day, then the clamp of negative values.\<close>

definition cleaned_daily :: "df_row list \<Rightarrow> df_row list" where
  "cleaned_daily frame = map (clamp_negative \<circ> fillna) (daily_diff frame)"

text \<open>The rows of one id in date order: what \<^verbatim>\<open>sort_values\<close> leaves of the id's group.\<close>

definition frame_partition :: "df_row list \<Rightarrow> string \<Rightarrow> df_row list" where
  "frame_partition frame e = sort_key df_snapshot_date (filter (\<lambda>r. df_id r = e) frame)"

text \<open>
  \<^verbatim>\<open>analyze_historical_data\<close> on the rows of the CSV file, with the frame
  \<^verbatim>\<open>df_subset\<close> and the table that is saved as its result. A limit of 0 is false in
  \<^verbatim>\<open>if limit:\<close>.
\<close>

definition analyze_historical_data :: "csv_row list \<Rightarrow> nat option \<Rightarrow> error + pandas_tables" where
  "analyze_historical_data csv limit =
     (let df = (case limit of None \<Rightarrow> csv | Some n \<Rightarrow> if n = 0 then csv else take n csv) in
      case with_authors df of
        Inl e \<Rightarrow> Inl e
      | Inr frame \<Rightarrow>
          Inr \<lparr>df_subset = cleaned_daily frame,
               author_daily = groupby_sum (cleaned_daily frame)\<rparr>)"

section \<open>The ingestor: \<^verbatim>\<open>downloadModelsData.py\<close>\<close>

record commit_info =
  commit_id :: string
  created_at :: "nat \<times> nat \<times> nat"
  title :: string
  message :: string

text \<open>\<^verbatim>\<open>strftime("%Y%m%d")\<close> of the commit's date (year, month, day).\<close>

fun zero_pad :: "nat \<Rightarrow> nat \<Rightarrow> string" where
  "zero_pad 0 n = []"
| "zero_pad (Suc w) n = zero_pad w (n div 10) @ [char_of (48 + n mod 10)]"

definition strftime_Ymd :: "nat \<times> nat \<times> nat \<Rightarrow> string" where
  "strftime_Ymd date = (case date of (y, m, d) \<Rightarrow> zero_pad 4 y @ zero_pad 2 m @ zero_pad 2 d)"

definition lower :: "string \<Rightarrow> string" where
  "lower s = map (\<lambda>c. if CHR ''A'' \<le> c \<and> c \<le> CHR ''Z'' then char_of (of_char c + (32::nat)) else c) s"

fun contains :: "string \<Rightarrow> string \<Rightarrow> bool" where
  "contains sub [] \<longleftrightarrow> sub = []"
| "contains sub (c # cs) \<longleftrightarrow> take (length sub) (c # cs) = sub \<or> contains sub cs"

text \<open>
  The state of the download loop: the files of \<^verbatim>\<open>historical_dir\<close> by name, the hashes
  seen, the list that is returned and the four counters. \<open>'c\<close> is the content of a
  file, \<open>'h\<close> a digest.
\<close>

record ('c, 'h) ingest_state =
  historical_dir :: "string \<rightharpoonup> 'c"
  seen_hashes :: "'h set"
  downloaded_files :: "string list"
  successful_downloads :: nat
  skipped_existing :: nat
  skipped_no_change :: nat
  skipped_no_file :: nat

definition output_filename :: "commit_info \<Rightarrow> string \<Rightarrow> string" where
  "output_filename c file_format =
     ''models-'' @ strftime_Ymd (created_at c) @ ''-'' @ take 7 (commit_id c) @ ''.'' @ file_format"

text \<open>
  The loop over the formats (lines 259-311) for one commit, with \<^verbatim>\<open>file_downloaded\<close> as
  the second result. \<open>hub revision filename\<close> is \<^verbatim>\<open>hf_hub_download\<close> (\<open>None\<close>: it
  raises, and the next format is tried) and \<open>file_hash\<close> is \<^verbatim>\<open>_compute_file_hash\<close> of a
  file's content.
\<close>

fun try_formats ::
  "(string \<Rightarrow> string \<Rightarrow> 'c option) \<Rightarrow> ('c \<Rightarrow> 'h) \<Rightarrow> commit_info \<Rightarrow> string list
     \<Rightarrow> ('c, 'h) ingest_state \<Rightarrow> ('c, 'h) ingest_state \<times> bool" where
  "try_formats hub file_hash c [] st = (st, False)"
| "try_formats hub file_hash c (file_format # formats) st =
     (case historical_dir st (output_filename c file_format) of
        Some existing \<Rightarrow>
          (st\<lparr>seen_hashes := insert (file_hash existing) (seen_hashes st),
              skipped_existing := skipped_existing st + 1\<rparr>, True)
      | None \<Rightarrow>
          (case hub (commit_id c) (''models.'' @ file_format) of
             None \<Rightarrow> try_formats hub file_hash c formats st
           | Some cached \<Rightarrow>
               if file_hash cached \<in> seen_hashes st
               then (st\<lparr>skipped_no_change := skipped_no_change st + 1\<rparr>, True)
               else (st\<lparr>seen_hashes := insert (file_hash cached) (seen_hashes st),
                        historical_dir :=
                          (historical_dir st)(output_filename c file_format \<mapsto> cached),
                        downloaded_files :=
                          downloaded_files st @ [output_filename c file_format],
                        successful_downloads := successful_downloads st + 1\<rparr>, True)))"

definition process_commit ::
  "(string \<Rightarrow> string \<Rightarrow> 'c option) \<Rightarrow> ('c \<Rightarrow> 'h)
     \<Rightarrow> ('c, 'h) ingest_state \<Rightarrow> commit_info \<Rightarrow> ('c, 'h) ingest_state" where
  "process_commit hub file_hash st c =
     (case try_formats hub file_hash c [''parquet'', ''csv''] st of
        (st', file_downloaded) \<Rightarrow>
          if file_downloaded then st' else st'\<lparr>skipped_no_file := skipped_no_file st' + 1\<rparr>)"

definition relevant_commit :: "commit_info \<Rightarrow> bool" where
  "relevant_commit c \<longleftrightarrow>
     (let commit_text = lower (title c @ '' '' @ message c)
      in contains ''models.parquet'' commit_text \<or> contains ''models.csv'' commit_text)"

text \<open>
  \<^verbatim>\<open>download_historical_models_data\<close> on the commit list that the history service
  returned and the files already in \<^verbatim>\<open>historical_dir\<close>. The final state holds the
  directory after the run and the returned list \<open>downloaded_files\<close>.
\<close>

definition download_historical_models_data ::
  "(string \<Rightarrow> string \<Rightarrow> 'c option) \<Rightarrow> ('c \<Rightarrow> 'h) \<Rightarrow> (string \<rightharpoonup> 'c) \<Rightarrow> commit_info list
     \<Rightarrow> ('c, 'h) ingest_state" where
  "download_historical_models_data hub file_hash existing commits =
     foldl (process_commit hub file_hash)
       \<lparr>historical_dir = existing, seen_hashes = {}, downloaded_files = [],
        successful_downloads = 0, skipped_existing = 0, skipped_no_change = 0,
        skipped_no_file = 0\<rparr>
       (filter relevant_commit commits)"

section \<open>Theorems\<close>

subsection \<open>Window order: lemmas on sorted lists\<close>

lemma length_lag: "length (lag xs) = length xs"
  by (cases xs) (simp_all add: lag_def)

lemma lag_nth_0: "xs \<noteq> [] \<Longrightarrow> lag xs ! 0 = None"
  by (cases xs) (simp_all add: lag_def)

lemma lag_nth_Suc: "Suc k < length xs \<Longrightarrow> lag xs ! Suc k = Some (xs ! k)"
proof -
  assume len: "Suc k < length xs"
  then have "xs \<noteq> []" by auto
  then have "lag xs = None # map Some (butlast xs)"
    by (simp add: lag_def split: list.split)
  moreover have "k < length (butlast xs)" using len by simp
  ultimately show ?thesis by (simp add: nth_butlast)
qed

lemma concat_single_group:
  "distinct ids \<Longrightarrow> concat (map (\<lambda>i. if i = e then w else []) ids) = (if e \<in> set ids then w else [])"
  by (induction ids) auto

lemma window_partition_id: "r \<in> set (window_partition tbl i) \<Longrightarrow> model_id r = i"
  by (simp add: window_partition_def)

lemma length_window_rows: "length (window_rows tbl i) = length (window_partition tbl i)"
  by (simp add: window_rows_def length_lag Let_def)

lemma window_rows_nth:
  "k < length (window_partition tbl i) \<Longrightarrow>
   window_rows tbl i ! k =
     with_daily (window_partition tbl i ! k) (lag (map downloadsAllTime (window_partition tbl i)) ! k)"
  by (simp add: window_rows_def length_lag Let_def)

lemma with_daily_fields [simp]:
  "model_id (with_daily r p) = model_id r"
  "snapshot_date (with_daily r p) = snapshot_date r"
  "author (with_daily r p) = author r"
  "downloadsAllTime (with_daily r p) = downloadsAllTime r"
  "daily_downloads (with_daily r p) = (case p of None \<Rightarrow> None | Some v \<Rightarrow> Some (downloadsAllTime r - v))"
  by (simp_all add: with_daily_def snapshot_row.extend_def)

lemma window_rows_id: "r \<in> set (window_rows tbl i) \<Longrightarrow> model_id r = i"
  by (auto simp: window_rows_def Let_def set_zip length_lag dest!: nth_mem [THEN window_partition_id])

lemma filter_window_rows:
  "filter (\<lambda>r. model_id r = e) (window_rows tbl i) = (if i = e then window_rows tbl e else [])"
  by (auto simp: filter_empty_conv dest: window_rows_id intro!: filter_True)

lemma window_rows_empty: "e \<notin> set (map model_id tbl) \<Longrightarrow> window_rows tbl e = []"
proof -
  assume "e \<notin> set (map model_id tbl)"
  then have "filter (\<lambda>r. model_id r = e) tbl = []" by (auto simp: filter_empty_conv)
  then show ?thesis by (simp add: window_rows_def window_partition_def lag_def)
qed

lemma sorted_const_key:
  "sorted (map f xs) \<Longrightarrow> sorted (map (\<lambda>x. (c, f x)) xs)"
  by (induction xs) auto

lemma map_key_window_rows:
  "map (\<lambda>r. (model_id r, snapshot_date r)) (window_rows tbl e)
   = map (\<lambda>r. (e, snapshot_date r)) (window_partition tbl e)"
  by (rule nth_equalityI)
     (auto simp: length_window_rows window_rows_nth dest!: nth_mem [THEN window_partition_id])

lemma sorted_window_partition: "sorted (map snapshot_date (window_partition tbl e))"
  by (simp add: window_partition_def)

lemma delta_records_of_model:
  "filter (\<lambda>r. model_id r = e) (daily_model_downloads tbl) = window_rows tbl e"
proof -
  have "filter (\<lambda>r. model_id r = e)
          (concat (map (window_rows tbl) (remdups (map model_id tbl))))
        = window_rows tbl e"
    using window_rows_empty [of e tbl]
    by (simp add: filter_concat comp_def filter_window_rows concat_single_group)
  moreover have "sort_key (\<lambda>r. (model_id r, snapshot_date r)) (window_rows tbl e) = window_rows tbl e"
    by (rule sort_key_id_if_sorted)
       (simp add: map_key_window_rows sorted_const_key sorted_window_partition)
  ultimately show ?thesis
    by (simp add: daily_model_downloads_def filter_sort)
qed


lemma first_index:
  assumes "sorted (map f obs)" "distinct (map f obs)" "j < length obs"
    and "\<forall>q\<in>set obs. f (obs ! j) \<le> f q"
  shows "j = 0"
proof (rule ccontr)
  assume "j \<noteq> 0"
  with assms(3) have 0: "0 < length obs" "0 < j" by auto
  from assms(4) 0 have "f (obs ! j) \<le> f (obs ! 0)" by simp
  moreover from assms(1,3) 0 have "f (obs ! 0) \<le> f (obs ! j)"
    using sorted_nth_mono [of "map f obs" 0 j] by simp
  ultimately have "f (obs ! 0) = f (obs ! j)" by simp
  with assms(2,3) 0 show False
    using nth_eq_iff_index_eq [of "map f obs" 0 j] by simp
qed

lemma prev_index:
  assumes "sorted (map f obs)" "distinct (map f obs)" "j < length obs" "p \<in> set obs"
    and "f p < f (obs ! j)"
    and "\<forall>q\<in>set obs. \<not> (f p < f q \<and> f q < f (obs ! j))"
  shows "\<exists>k. j = Suc k \<and> obs ! k = p"
proof -
  from assms(4) obtain i where i: "i < length obs" "obs ! i = p"
    by (auto simp: in_set_conv_nth)
  have "i < j"
  proof (rule ccontr)
    assume "\<not> i < j"
    then have "f (obs ! j) \<le> f (obs ! i)"
      using sorted_nth_mono [of "map f obs" j i] assms(1,3) i by simp
    with assms(5) i show False by simp
  qed
  then obtain k where k: "j = Suc k" by (cases j) auto
  have "i = k"
  proof (rule ccontr)
    assume "i \<noteq> k"
    with \<open>i < j\<close> k have "i < k" by simp
    have kl: "k < length obs" using k assms(3) by simp
    have "f (obs ! i) \<le> f (obs ! k)"
      using sorted_nth_mono [of "map f obs" i k] assms(1) kl \<open>i < k\<close> by simp
    moreover have "f (obs ! i) \<noteq> f (obs ! k)"
      using assms(2) i kl \<open>i \<noteq> k\<close> nth_eq_iff_index_eq [of "map f obs" i k] by simp
    moreover have "f (obs ! k) \<le> f (obs ! j)"
      using sorted_nth_mono [of "map f obs" k j] assms(1,3) k by simp
    moreover have "f (obs ! k) \<noteq> f (obs ! j)"
      using assms(2,3) kl k nth_eq_iff_index_eq [of "map f obs" k j] by simp
    ultimately have "f p < f (obs ! k) \<and> f (obs ! k) < f (obs ! j)" using i by auto
    moreover have "obs ! k \<in> set obs" using kl by simp
    ultimately show False using assms(6) by blast
  qed
  with i k show ?thesis by simp
qed

lemma distinct_map_sort_key: "distinct (map f (sort_key f xs)) = distinct (map f xs)"
  by (simp add: distinct_map)

lemma distinct_window_partition:
  "distinct (map snapshot_date (filter (\<lambda>q. model_id q = e) tbl))
   \<Longrightarrow> distinct (map snapshot_date (window_partition tbl e))"
  by (simp add: window_partition_def distinct_map_sort_key)

lemma set_window_partition:
  "set (window_partition tbl e) = {q \<in> set tbl. model_id q = e}"
  by (auto simp: window_partition_def)

lemma daily_record_index:
  assumes "r \<in> set (daily_model_downloads tbl)"
  obtains j where "j < length (window_partition tbl (model_id r))"
    and "r = with_daily (window_partition tbl (model_id r) ! j)
               (lag (map downloadsAllTime (window_partition tbl (model_id r))) ! j)"
proof -
  from assms have "r \<in> set (filter (\<lambda>q. model_id q = model_id r) (daily_model_downloads tbl))"
    by simp
  then have "r \<in> set (window_rows tbl (model_id r))"
    by (simp only: delta_records_of_model)
  then obtain j where "j < length (window_rows tbl (model_id r))"
    and "window_rows tbl (model_id r) ! j = r"
    by (auto simp: in_set_conv_nth)
  then show thesis
    using that [of j] by (simp add: length_window_rows window_rows_nth)
qed

lemma duckdb_first_observation:
  fixes tbl :: "('d::linorder) snapshot_row list"
  assumes r: "r \<in> set (daily_model_downloads tbl)"
    and one_per_date: "distinct (map snapshot_date (filter (\<lambda>q. model_id q = model_id r) tbl))"
    and first: "\<forall>q\<in>set tbl. model_id q = model_id r \<longrightarrow> snapshot_date r \<le> snapshot_date q"
  shows "daily_downloads r = None"
proof -
  let ?obs = "window_partition tbl (model_id r)"
  from r obtain j where j: "j < length ?obs"
    and rj: "r = with_daily (?obs ! j) (lag (map downloadsAllTime ?obs) ! j)"
    by (rule daily_record_index)
  have date: "snapshot_date r = snapshot_date (?obs ! j)"
    by (subst rj) simp
  have "\<forall>q\<in>set ?obs. snapshot_date (?obs ! j) \<le> snapshot_date q"
    using first by (simp add: set_window_partition date)
  with j have "j = 0"
    using first_index [of snapshot_date ?obs j] one_per_date
    by (simp add: sorted_window_partition distinct_window_partition)
  with j have "lag (map downloadsAllTime ?obs) ! j = None"
    by (simp add: lag_nth_0)
  then show ?thesis by (subst rj) simp
qed

lemma duckdb_later_observation:
  fixes tbl :: "('d::linorder) snapshot_row list"
  assumes r: "r \<in> set (daily_model_downloads tbl)"
    and one_per_date: "distinct (map snapshot_date (filter (\<lambda>q. model_id q = model_id r) tbl))"
    and p: "p \<in> set tbl" "model_id p = model_id r" "snapshot_date p < snapshot_date r"
    and adjacent: "\<forall>q\<in>set tbl. model_id q = model_id r \<longrightarrow>
                     \<not> (snapshot_date p < snapshot_date q \<and> snapshot_date q < snapshot_date r)"
  shows "daily_downloads r = Some (downloadsAllTime r - downloadsAllTime p)"
proof -
  let ?obs = "window_partition tbl (model_id r)"
  from r obtain j where j: "j < length ?obs"
    and rj: "r = with_daily (?obs ! j) (lag (map downloadsAllTime ?obs) ! j)"
    by (rule daily_record_index)
  have date: "snapshot_date r = snapshot_date (?obs ! j)"
    by (subst rj) simp
  have count: "downloadsAllTime r = downloadsAllTime (?obs ! j)"
    by (subst rj) simp
  have "p \<in> set ?obs" using p by (simp add: set_window_partition)
  moreover have "snapshot_date p < snapshot_date (?obs ! j)" using p date by simp
  moreover have "\<forall>q\<in>set ?obs. \<not> (snapshot_date p < snapshot_date q
                    \<and> snapshot_date q < snapshot_date (?obs ! j))"
    using adjacent by (simp add: set_window_partition date)
  ultimately obtain k where k: "j = Suc k" "?obs ! k = p"
    using prev_index [of snapshot_date ?obs j p] j one_per_date
    by (auto simp: sorted_window_partition distinct_window_partition)
  with j have "lag (map downloadsAllTime ?obs) ! j = Some (downloadsAllTime p)"
    by (simp add: lag_nth_Suc)
  then have "daily_downloads r = Some (downloadsAllTime (?obs ! j) - downloadsAllTime p)"
    by (subst rj) simp
  with count show ?thesis by simp
qed

subsection \<open>The difference within each id of the pandas frame\<close>

lemma length_groupby_diff: "length (groupby_diff prev rs) = length rs"
  by (induction rs arbitrary: prev) simp_all

lemma groupby_diff_cong:
  "\<forall>r\<in>set rs. prev (df_id r) = prev' (df_id r) \<Longrightarrow> groupby_diff prev rs = groupby_diff prev' rs"
  by (induction rs arbitrary: prev prev') simp_all

lemma filter_groupby_diff:
  "filter (\<lambda>r. df_id r = e) (groupby_diff prev rs)
   = groupby_diff prev (filter (\<lambda>r. df_id r = e) rs)"
proof (induction rs arbitrary: prev)
  case Nil
  show ?case by simp
next
  case (Cons r rs)
  show ?case
  proof (cases "df_id r = e")
    case True
    then show ?thesis by (simp add: Cons.IH fun_upd_def)
  next
    case False
    have "groupby_diff (prev(df_id r \<mapsto> df_downloadsAllTime r)) (filter (\<lambda>r. df_id r = e) rs)
          = groupby_diff prev (filter (\<lambda>r. df_id r = e) rs)"
      using False by (intro groupby_diff_cong) auto
    with False show ?thesis by (simp add: Cons.IH fun_upd_def)
  qed
qed

lemma groupby_diff_nth_Suc:
  "\<forall>r\<in>set rs. df_id r = e \<Longrightarrow> Suc k < length rs \<Longrightarrow>
   groupby_diff prev rs ! Suc k
   = (rs ! Suc k)\<lparr>df_daily_downloads :=
        minus_nan (df_downloadsAllTime (rs ! Suc k)) (df_downloadsAllTime (rs ! k))\<rparr>"
proof (induction rs arbitrary: prev k)
  case Nil
  then show ?case by simp
next
  case (Cons r rs)
  show ?case
  proof (cases k)
    case 0
    from Cons.prems(2) 0 obtain r' rs' where rs: "rs = r' # rs'" by (cases rs) auto
    from Cons.prems(1) have "df_id r' = df_id r" by (simp add: rs)
    then show ?thesis unfolding 0 rs by simp
  next
    case (Suc k')
    have "groupby_diff prev (r # rs) ! Suc k
          = groupby_diff (prev(df_id r \<mapsto> df_downloadsAllTime r)) rs ! Suc k'"
      by (simp add: Suc)
    also have "\<dots> = (rs ! Suc k')\<lparr>df_daily_downloads :=
        minus_nan (df_downloadsAllTime (rs ! Suc k')) (df_downloadsAllTime (rs ! k'))\<rparr>"
      using Cons.prems by (intro Cons.IH) (simp_all add: Suc)
    finally show ?thesis by (simp add: Suc)
  qed
qed

lemma insort_key_const_fst:
  "g a = c \<Longrightarrow> \<forall>x\<in>set xs. g x = c \<Longrightarrow>
   insort_key (\<lambda>x. (g x, f x)) a xs = insort_key f a xs"
  by (induction xs) auto

lemma sort_key_const_fst:
  "\<forall>x\<in>set xs. g x = c \<Longrightarrow> sort_key (\<lambda>x. (g x, f x)) xs = sort_key f xs"
  by (induction xs) (simp_all add: insort_key_const_fst)

lemma diff_records_of_model:
  "filter (\<lambda>r. df_id r = e) (daily_diff frame) = groupby_diff Map.empty (frame_partition frame e)"
proof -
  have "sort_key (\<lambda>r. (df_id r, df_snapshot_date r)) (filter (\<lambda>r. df_id r = e) frame)
        = sort_key df_snapshot_date (filter (\<lambda>r. df_id r = e) frame)"
    by (rule sort_key_const_fst [where c = e]) simp
  then show ?thesis
    by (simp add: daily_diff_def sort_values_def filter_groupby_diff filter_sort frame_partition_def)
qed


lemma groupby_diff_nth_0: "rs \<noteq> [] \<Longrightarrow> groupby_diff Map.empty rs ! 0 = (rs ! 0)\<lparr>df_daily_downloads := None\<rparr>"
  by (cases rs) simp_all

lemma set_frame_partition: "set (frame_partition frame e) = {q \<in> set frame. df_id q = e}"
  by (auto simp: frame_partition_def)

lemma sorted_frame_partition: "sorted (map df_snapshot_date (frame_partition frame e))"
  by (simp add: frame_partition_def)

lemma distinct_frame_partition:
  "distinct (map df_snapshot_date (filter (\<lambda>q. df_id q = e) frame))
   \<Longrightarrow> distinct (map df_snapshot_date (frame_partition frame e))"
  by (simp add: frame_partition_def distinct_map)

lemma diff_record_index:
  assumes "r \<in> set (daily_diff frame)"
  obtains j where "j < length (frame_partition frame (df_id r))"
    and "r = (frame_partition frame (df_id r) ! j)\<lparr>df_daily_downloads :=
               (case j of 0 \<Rightarrow> None
                | Suc k \<Rightarrow> minus_nan (df_downloadsAllTime (frame_partition frame (df_id r) ! j))
                             (df_downloadsAllTime (frame_partition frame (df_id r) ! k)))\<rparr>"
proof -
  let ?obs = "frame_partition frame (df_id r)"
  from assms have "r \<in> set (filter (\<lambda>q. df_id q = df_id r) (daily_diff frame))"
    by simp
  then have "r \<in> set (groupby_diff Map.empty ?obs)"
    by (simp only: diff_records_of_model)
  then obtain j where j: "j < length ?obs" "groupby_diff Map.empty ?obs ! j = r"
    by (auto simp: in_set_conv_nth length_groupby_diff)
  show thesis
  proof (cases j)
    case 0
    with j have "?obs \<noteq> []" by auto
    with j 0 show ?thesis using that [of j] by (simp add: groupby_diff_nth_0)
  next
    case (Suc k)
    have "\<forall>q\<in>set ?obs. df_id q = df_id r" by (simp add: set_frame_partition)
    with j Suc show ?thesis
      using that [of j] groupby_diff_nth_Suc [of ?obs "df_id r" k Map.empty] by simp
  qed
qed

lemma pandas_diff_first_observation:
  assumes r: "r \<in> set (daily_diff frame)"
    and one_per_date: "distinct (map df_snapshot_date (filter (\<lambda>q. df_id q = df_id r) frame))"
    and first: "\<forall>q\<in>set frame. df_id q = df_id r \<longrightarrow> df_snapshot_date r \<le> df_snapshot_date q"
  shows "df_daily_downloads r = None"
proof -
  let ?obs = "frame_partition frame (df_id r)"
  from r obtain j where j: "j < length ?obs"
    and rj: "r = (?obs ! j)\<lparr>df_daily_downloads :=
               (case j of 0 \<Rightarrow> None
                | Suc k \<Rightarrow> minus_nan (df_downloadsAllTime (?obs ! j))
                             (df_downloadsAllTime (?obs ! k)))\<rparr>"
    by (rule diff_record_index)
  have date: "df_snapshot_date r = df_snapshot_date (?obs ! j)"
    by (subst rj) simp
  have "\<forall>q\<in>set ?obs. df_snapshot_date (?obs ! j) \<le> df_snapshot_date q"
    using first by (simp add: set_frame_partition date)
  with j have "j = 0"
    using first_index [of df_snapshot_date ?obs j] one_per_date
    by (simp add: sorted_frame_partition distinct_frame_partition)
  then show ?thesis by (subst rj) simp
qed

lemma pandas_diff_later_observation:
  assumes r: "r \<in> set (daily_diff frame)"
    and one_per_date: "distinct (map df_snapshot_date (filter (\<lambda>q. df_id q = df_id r) frame))"
    and p: "p \<in> set frame" "df_id p = df_id r" "df_snapshot_date p < df_snapshot_date r"
    and adjacent: "\<forall>q\<in>set frame. df_id q = df_id r \<longrightarrow>
                     \<not> (df_snapshot_date p < df_snapshot_date q
                        \<and> df_snapshot_date q < df_snapshot_date r)"
  shows "df_daily_downloads r = minus_nan (df_downloadsAllTime r) (df_downloadsAllTime p)"
proof -
  let ?obs = "frame_partition frame (df_id r)"
  from r obtain j where j: "j < length ?obs"
    and rj: "r = (?obs ! j)\<lparr>df_daily_downloads :=
               (case j of 0 \<Rightarrow> None
                | Suc k \<Rightarrow> minus_nan (df_downloadsAllTime (?obs ! j))
                             (df_downloadsAllTime (?obs ! k)))\<rparr>"
    by (rule diff_record_index)
  have date: "df_snapshot_date r = df_snapshot_date (?obs ! j)"
    by (subst rj) simp
  have count: "df_downloadsAllTime r = df_downloadsAllTime (?obs ! j)"
    by (subst rj) simp
  have "p \<in> set ?obs" using p by (simp add: set_frame_partition)
  moreover have "df_snapshot_date p < df_snapshot_date (?obs ! j)" using p date by simp
  moreover have "\<forall>q\<in>set ?obs. \<not> (df_snapshot_date p < df_snapshot_date q
                    \<and> df_snapshot_date q < df_snapshot_date (?obs ! j))"
    using adjacent by (simp add: set_frame_partition date)
  ultimately obtain k where k: "j = Suc k" "?obs ! k = p"
    using prev_index [of df_snapshot_date ?obs j p] j one_per_date
    by (auto simp: sorted_frame_partition distinct_frame_partition)
  then have "df_daily_downloads r
             = minus_nan (df_downloadsAllTime (?obs ! j)) (df_downloadsAllTime p)"
    by (subst rj) simp
  with count show ?thesis by simp
qed

subsection \<open>No snapshot files\<close>

text \<open>
  Claim C7. When no file of the input directory is a snapshot file (none matches
  \<^verbatim>\<open>models-*.parquet\<close>), both loaders stop with a \<^verbatim>\<open>ValueError\<close> whose message
  names the directory; neither returns a table.
\<close>

theorem C7_no_snapshot_files_is_fatal:
  "\<forall>f \<in> set dir. \<not> glob_models_parquet (fst f) \<Longrightarrow>
   process_historical_data to_date data_dir dir
     = Inl (ValueError (''No parquet files found in '' @ data_dir))
   \<and> clean_historical_data data_dir (Some dir)
     = Inl (ValueError (''No parquet files found in '' @ data_dir))"
  by (simp add: process_historical_data_def clean_historical_data_def sorted_glob_def
        filter_empty_conv)

theorem C7_no_snapshot_files_is_fatal_witness:
  "process_historical_data iso_date ''data/raw/historical''
     [(''entities-2025-01-01.parquet'',
       \<lparr>pq_columns = [''id'', ''downloadsAllTime''], pq_rows = []\<rparr>)]
     = Inl (ValueError ''No parquet files found in data/raw/historical'')
   \<and> clean_historical_data ''data/raw/historical''
     (Some [(''entities-2025-01-01.parquet'',
       \<lparr>pq_columns = [''id'', ''downloadsAllTime''], pq_rows = []\<rparr>)])
     = Inl (ValueError ''No parquet files found in data/raw/historical'')"
  using C7_no_snapshot_files_is_fatal
    [of "[(''entities-2025-01-01.parquet'',
           \<lparr>pq_columns = [''id'', ''downloadsAllTime''], pq_rows = []\<rparr>)]"
        iso_date "''data/raw/historical''"]
  by (simp add: glob_models_parquet_def)

subsection \<open>The fill and the clamp of the pandas frame\<close>

lemma clean_fields:
  "df_id (clamp_negative (fillna r)) = df_id r"
  "df_snapshot_date (clamp_negative (fillna r)) = df_snapshot_date r"
  "df_downloadsAllTime (clamp_negative (fillna r)) = df_downloadsAllTime r"
  "df_author (clamp_negative (fillna r)) = df_author r"
  by (simp_all add: clamp_negative_def fillna_def split: option.split)

lemma clean_delta:
  "df_daily_downloads (clamp_negative (fillna r))
   = (case (case df_daily_downloads r of None \<Rightarrow> df_downloadsAllTime r | Some v \<Rightarrow> Some v) of
        None \<Rightarrow> None
      | Some v \<Rightarrow> Some (max 0 v))"
  by (simp add: clamp_negative_def fillna_def max_def split: option.split)

lemma cleaned_record:
  assumes "r \<in> set (cleaned_daily frame)"
  obtains r0 where "r0 \<in> set (daily_diff frame)" and "r = clamp_negative (fillna r0)"
  using assms by (auto simp: cleaned_daily_def)

lemma pandas_cleaned_first_observation:
  assumes r: "r \<in> set (cleaned_daily frame)"
    and one_per_date: "distinct (map df_snapshot_date (filter (\<lambda>q. df_id q = df_id r) frame))"
    and first: "\<forall>q\<in>set frame. df_id q = df_id r \<longrightarrow> df_snapshot_date r \<le> df_snapshot_date q"
  shows "df_daily_downloads r
         = (case df_downloadsAllTime r of None \<Rightarrow> None | Some v \<Rightarrow> Some (max 0 v))"
proof -
  from r obtain r0 where r0: "r0 \<in> set (daily_diff frame)" and eq: "r = clamp_negative (fillna r0)"
    by (rule cleaned_record)
  have "df_daily_downloads r0 = None"
    using r0 one_per_date first
    by (intro pandas_diff_first_observation [of r0 frame]) (simp_all add: eq clean_fields)
  then show ?thesis by (simp add: eq clean_delta clean_fields)
qed

lemma pandas_cleaned_later_observation:
  assumes r: "r \<in> set (cleaned_daily frame)"
    and one_per_date: "distinct (map df_snapshot_date (filter (\<lambda>q. df_id q = df_id r) frame))"
    and p: "p \<in> set frame" "df_id p = df_id r" "df_snapshot_date p < df_snapshot_date r"
    and adjacent: "\<forall>q\<in>set frame. df_id q = df_id r \<longrightarrow>
                     \<not> (df_snapshot_date p < df_snapshot_date q
                        \<and> df_snapshot_date q < df_snapshot_date r)"
    and counters: "df_downloadsAllTime r = Some a" "df_downloadsAllTime p = Some b"
  shows "df_daily_downloads r = Some (max 0 (a - b))"
proof -
  from r obtain r0 where r0: "r0 \<in> set (daily_diff frame)" and eq: "r = clamp_negative (fillna r0)"
    by (rule cleaned_record)
  have "df_daily_downloads r0 = minus_nan (df_downloadsAllTime r0) (df_downloadsAllTime p)"
    using r0 one_per_date p adjacent
    by (intro pandas_diff_later_observation [of r0 frame p]) (simp_all add: eq clean_fields)
  moreover have "df_downloadsAllTime r0 = Some a"
    using counters(1) by (simp add: eq clean_fields)
  ultimately have "df_daily_downloads r0 = Some (a - b)"
    using counters(2) by (simp add: minus_nan_def)
  then show ?thesis by (simp add: eq clean_delta)
qed

subsection \<open>The first observation of a model\<close>

text \<open>
  Claim C1, as amended. In the DuckDB engine the delta record of a model's first observed
  date has a \<^verbatim>\<open>NULL\<close> delta, wherever that date lies in the corpus. In the pandas engine
  the first observation's delta is filled with the raw counter value (line 103), and the
  clamp then leaves it unless it is negative: \<^verbatim>\<open>NaN\<close> when the counter is missing, the
  larger of 0 and the counter otherwise. The model is observed once per date.
\<close>

theorem C1_first_observation_delta:
  fixes tbl :: "('d::linorder) snapshot_row list"
  shows
  "(r \<in> set (daily_model_downloads tbl)
      \<and> distinct (map snapshot_date (filter (\<lambda>q. model_id q = model_id r) tbl))
      \<and> (\<forall>q\<in>set tbl. model_id q = model_id r \<longrightarrow> snapshot_date r \<le> snapshot_date q)
    \<longrightarrow> daily_downloads r = None)
   \<and> (r' \<in> set (cleaned_daily frame)
      \<and> distinct (map df_snapshot_date (filter (\<lambda>q. df_id q = df_id r') frame))
      \<and> (\<forall>q\<in>set frame. df_id q = df_id r' \<longrightarrow> df_snapshot_date r' \<le> df_snapshot_date q)
    \<longrightarrow> df_daily_downloads r'
          = (case df_downloadsAllTime r' of None \<Rightarrow> None | Some v \<Rightarrow> Some (max 0 v)))"
  using duckdb_first_observation [of r tbl] pandas_cleaned_first_observation [of r' frame]
  by blast

theorem C1_first_observation_delta_witness:
  "(\<lparr>snapshot_date = (2025, 1, 1), model_id = ''acme/model-a'', author = ''acme'',
          downloadsAllTime = 100, daily_downloads = None\<rparr> :: (nat \<times> nat \<times> nat) daily_row) \<in> set (daily_model_downloads ([\<lparr>snapshot_date = (2025, 1, 2), model_id = ''acme/model-a'', author = ''acme'',
          downloadsAllTime = 150\<rparr>,
        \<lparr>snapshot_date = (2025, 1, 1), model_id = ''acme/model-a'', author = ''acme'',
          downloadsAllTime = 100\<rparr>] :: (nat \<times> nat \<times> nat) snapshot_row list))
   \<and> daily_downloads (\<lparr>snapshot_date = (2025, 1, 1), model_id = ''acme/model-a'', author = ''acme'',
          downloadsAllTime = 100, daily_downloads = None\<rparr> :: (nat \<times> nat \<times> nat) daily_row) = None
   \<and> \<lparr>df_id = ''acme/model-a'', df_downloadsAllTime = Some 100,
          df_snapshot_date = ''2025-01-01'', df_author = ''acme'', df_daily_downloads = Some 100\<rparr> \<in> set (cleaned_daily [\<lparr>df_id = ''acme/model-a'', df_downloadsAllTime = Some 150,
          df_snapshot_date = ''2025-01-02'', df_author = ''acme'', df_daily_downloads = None\<rparr>,
        \<lparr>df_id = ''acme/model-a'', df_downloadsAllTime = Some 100,
          df_snapshot_date = ''2025-01-01'', df_author = ''acme'', df_daily_downloads = None\<rparr>])
   \<and> df_daily_downloads \<lparr>df_id = ''acme/model-a'', df_downloadsAllTime = Some 100,
          df_snapshot_date = ''2025-01-01'', df_author = ''acme'', df_daily_downloads = Some 100\<rparr> = Some (max 0 100)"
proof -
  let ?tbl = "([\<lparr>snapshot_date = (2025, 1, 2), model_id = ''acme/model-a'', author = ''acme'',
          downloadsAllTime = 150\<rparr>,
        \<lparr>snapshot_date = (2025, 1, 1), model_id = ''acme/model-a'', author = ''acme'',
          downloadsAllTime = 100\<rparr>] :: (nat \<times> nat \<times> nat) snapshot_row list)"
  let ?r = "(\<lparr>snapshot_date = (2025, 1, 1), model_id = ''acme/model-a'', author = ''acme'',
          downloadsAllTime = 100, daily_downloads = None\<rparr> :: (nat \<times> nat \<times> nat) daily_row)"
  let ?frame = "[\<lparr>df_id = ''acme/model-a'', df_downloadsAllTime = Some 150,
          df_snapshot_date = ''2025-01-02'', df_author = ''acme'', df_daily_downloads = None\<rparr>,
        \<lparr>df_id = ''acme/model-a'', df_downloadsAllTime = Some 100,
          df_snapshot_date = ''2025-01-01'', df_author = ''acme'', df_daily_downloads = None\<rparr>]"
  let ?r' = "\<lparr>df_id = ''acme/model-a'', df_downloadsAllTime = Some 100,
          df_snapshot_date = ''2025-01-01'', df_author = ''acme'', df_daily_downloads = Some 100\<rparr>"
  have h1: "?r \<in> set (daily_model_downloads ?tbl)" by code_simp
  have h2: "distinct (map snapshot_date (filter (\<lambda>q. model_id q = model_id ?r) ?tbl))"
    by code_simp
  have h3: "\<forall>q\<in>set ?tbl. model_id q = model_id ?r \<longrightarrow> snapshot_date ?r \<le> snapshot_date q"
    by code_simp
  have g1: "?r' \<in> set (cleaned_daily ?frame)" by code_simp
  have g2: "distinct (map df_snapshot_date (filter (\<lambda>q. df_id q = df_id ?r') ?frame))"
    by code_simp
  have g3: "\<forall>q\<in>set ?frame. df_id q = df_id ?r' \<longrightarrow> df_snapshot_date ?r' \<le> df_snapshot_date q"
    by code_simp
  note inst = C1_first_observation_delta
    [where r = ?r and tbl = ?tbl and r' = ?r' and frame = ?frame]
  have c1: "daily_downloads ?r = None"
    using inst [THEN conjunct1] h1 h2 h3 by (elim impE) (intro conjI; assumption)
  have "df_daily_downloads ?r'
        = (case df_downloadsAllTime ?r' of None \<Rightarrow> None | Some v \<Rightarrow> Some (max 0 v))"
    using inst [THEN conjunct2] g1 g2 g3 by (elim impE) (intro conjI; assumption)
  then have c2: "df_daily_downloads ?r' = Some (max 0 100)" by simp
  from h1 c1 g1 c2 show ?thesis by (intro conjI)
qed

text \<open>
  Claim C1 as stated fails on the pandas engine: a model observed on two dates with
  counters 100 and 150 gets the delta 100, its raw counter, on its first date, and the
  author total of that date is 100.
\<close>

theorem C1_pandas_first_observation_gets_raw_counter:
  "analyze_historical_data
     [\<lparr>csv_id = Some ''acme/model-a'', csv_likes = None, csv_downloads = None,
        csv_downloadsAllTime = Some 100, csv_snapshot_date = ''2025-01-01''\<rparr>,
      \<lparr>csv_id = Some ''acme/model-a'', csv_likes = None, csv_downloads = None,
        csv_downloadsAllTime = Some 150, csv_snapshot_date = ''2025-01-02''\<rparr>]
     None
   = Inr \<lparr>df_subset =
            [\<lparr>df_id = ''acme/model-a'', df_downloadsAllTime = Some 100,
               df_snapshot_date = ''2025-01-01'', df_author = ''acme'',
               df_daily_downloads = Some 100\<rparr>,
             \<lparr>df_id = ''acme/model-a'', df_downloadsAllTime = Some 150,
               df_snapshot_date = ''2025-01-02'', df_author = ''acme'',
               df_daily_downloads = Some 50\<rparr>],
          author_daily =
            [\<lparr>pd_author = ''acme'', pd_snapshot_date = ''2025-01-01'',
               pd_total_daily_downloads = 100\<rparr>,
             \<lparr>pd_author = ''acme'', pd_snapshot_date = ''2025-01-02'',
               pd_total_daily_downloads = 50\<rparr>]\<rparr>"
  by code_simp

subsection \<open>The groups of the aggregation\<close>

lemma author_daily_downloads_kept:
  "author_daily_downloads (filter nonneg_delta daily) = author_daily_downloads daily"
  by (simp add: author_daily_downloads_def)

lemma filter_group:
  "filter (\<lambda>r. group_key r = (d, a)) (filter nonneg_delta daily)
   = filter (\<lambda>r. snapshot_date r = d \<and> author r = a \<and> nonneg_delta r) daily"
  by (auto simp: group_key_def intro: filter_cong)

lemma output_group:
  assumes "g \<in> set (author_daily_downloads daily)"
  obtains d a r where "r \<in> set daily" "nonneg_delta r" "snapshot_date r = d" "author r = a"
    and "g = aggregate_group (d, a)
               (filter (\<lambda>r. snapshot_date r = d \<and> author r = a \<and> nonneg_delta r) daily)"
proof -
  from assms obtain k where k: "k \<in> group_key ` set (filter nonneg_delta daily)"
    and g: "g = aggregate_group k (filter (\<lambda>r. group_key r = k) (filter nonneg_delta daily))"
    by (auto simp: author_daily_downloads_def Let_def)
  from k obtain r where r: "r \<in> set daily" "nonneg_delta r" "k = group_key r" by auto
  show thesis
    using that [of r "snapshot_date r" "author r"] r g
    by (simp add: filter_group [symmetric] group_key_def)
qed

lemma output_group_key:
  assumes "g \<in> set (author_daily_downloads daily)"
  shows "g = aggregate_group (agg_snapshot_date g, agg_author g)
               (filter (\<lambda>r. snapshot_date r = agg_snapshot_date g \<and> author r = agg_author g
                             \<and> nonneg_delta r) daily)"
    and "\<exists>r\<in>set daily. snapshot_date r = agg_snapshot_date g \<and> author r = agg_author g
                             \<and> nonneg_delta r"
proof -
  from assms obtain d a r where r: "r \<in> set daily" "nonneg_delta r" "snapshot_date r = d" "author r = a"
    and g: "g = aggregate_group (d, a)
               (filter (\<lambda>r. snapshot_date r = d \<and> author r = a \<and> nonneg_delta r) daily)"
    by (rule output_group)
  from g have key: "agg_snapshot_date g = d" "agg_author g = a"
    by (simp_all add: aggregate_group_def)
  from g key show "g = aggregate_group (agg_snapshot_date g, agg_author g)
               (filter (\<lambda>r. snapshot_date r = agg_snapshot_date g \<and> author r = agg_author g
                             \<and> nonneg_delta r) daily)"
    by simp
  from r key show "\<exists>r\<in>set daily. snapshot_date r = agg_snapshot_date g \<and> author r = agg_author g
                             \<and> nonneg_delta r"
    by auto
qed

lemma group_of_kept_row:
  assumes "r \<in> set daily" "nonneg_delta r"
  shows "\<exists>g\<in>set (author_daily_downloads daily).
           agg_snapshot_date g = snapshot_date r \<and> agg_author g = author r"
proof -
  let ?kept = "filter nonneg_delta daily"
  let ?g = "aggregate_group (group_key r) (filter (\<lambda>q. group_key q = group_key r) ?kept)"
  from assms have "group_key r \<in> set (remdups (map group_key ?kept))" by auto
  then have "?g \<in> set (author_daily_downloads daily)"
    by (auto simp: author_daily_downloads_def Let_def)
  moreover have "agg_snapshot_date ?g = snapshot_date r \<and> agg_author ?g = author r"
    by (simp add: aggregate_group_def group_key_def)
  ultimately show ?thesis by blast
qed

lemma output_sorted:
  "sorted_wrt (\<lambda>g h. agg_snapshot_date g < agg_snapshot_date h
                    \<or> (agg_snapshot_date g = agg_snapshot_date h
                        \<and> total_daily_downloads h \<le> total_daily_downloads g))
     (author_daily_downloads daily)"
proof -
  have "sorted (map (\<lambda>g. (agg_snapshot_date g, - total_daily_downloads g))
                 (author_daily_downloads daily))"
    by (simp add: author_daily_downloads_def Let_def)
  then have "sorted_wrt (\<lambda>g h. (agg_snapshot_date g, - total_daily_downloads g)
                             \<le> (agg_snapshot_date h, - total_daily_downloads h))
               (author_daily_downloads daily)"
    by (simp add: sorted_map)
  then show ?thesis
    by (rule sorted_wrt_mono_rel [rotated]) auto
qed

lemma groupby_sum_sorted:
  "sorted (map (\<lambda>g. (pd_author g, pd_snapshot_date g)) (groupby_sum df))"
  "distinct (map (\<lambda>g. (pd_author g, pd_snapshot_date g)) (groupby_sum df))"
  by (simp_all add: groupby_sum_def comp_def)

subsection \<open>The count of models of a group\<close>

text \<open>
  Claim C4, as amended. For every (author, date) group of the aggregate table of the DuckDB
  engine, \<^verbatim>\<open>n_models\<close> is the number of distinct models of that author and date whose
  delta is neither \<^verbatim>\<open>NULL\<close> nor negative, and it is at least 1; an author and a date have
  a group exactly when some such row exists. A model whose delta is \<^verbatim>\<open>NULL\<close> or negative
  is not counted.
\<close>

theorem C4_n_models_counts_rows_kept:
  fixes daily :: "('d::linorder) daily_row list"
  shows
  "(g \<in> set (author_daily_downloads daily) \<longrightarrow>
      n_models g
        = card (model_id ` {r \<in> set daily. snapshot_date r = agg_snapshot_date g
                                         \<and> author r = agg_author g \<and> nonneg_delta r})
      \<and> 0 < n_models g)
   \<and> ((\<exists>g\<in>set (author_daily_downloads daily). agg_snapshot_date g = d \<and> agg_author g = a)
        \<longleftrightarrow> (\<exists>r\<in>set daily. snapshot_date r = d \<and> author r = a \<and> nonneg_delta r))"
proof (intro conjI impI)
  assume g: "g \<in> set (author_daily_downloads daily)"
  let ?grp = "filter (\<lambda>r. snapshot_date r = agg_snapshot_date g \<and> author r = agg_author g
                           \<and> nonneg_delta r) daily"
  from g have "n_models g = n_models (aggregate_group (agg_snapshot_date g, agg_author g) ?grp)"
    using output_group_key(1) [of g daily] by simp
  then have n: "n_models g = card (model_id ` set ?grp)"
    by (simp add: aggregate_group_def length_remdups_card_conv)
  moreover have "set ?grp = {r \<in> set daily. snapshot_date r = agg_snapshot_date g
                                         \<and> author r = agg_author g \<and> nonneg_delta r}"
    by auto
  ultimately show "n_models g
        = card (model_id ` {r \<in> set daily. snapshot_date r = agg_snapshot_date g
                                         \<and> author r = agg_author g \<and> nonneg_delta r})"
    by simp
  from g have "set ?grp \<noteq> {}"
    using output_group_key(2) [of g daily] by auto
  then have "0 < card (model_id ` set ?grp)"
    by (simp add: card_gt_0_iff)
  with n show "0 < n_models g" by simp
next
  show "(\<exists>g\<in>set (author_daily_downloads daily). agg_snapshot_date g = d \<and> agg_author g = a)
        \<longleftrightarrow> (\<exists>r\<in>set daily. snapshot_date r = d \<and> author r = a \<and> nonneg_delta r)"
    using output_group_key(2) [of _ daily] group_of_kept_row [of _ daily]
    by blast
qed

theorem C4_n_models_counts_rows_kept_witness:
  "(\<lparr>agg_snapshot_date = (2025, 1, 2), agg_author = ''acme'', n_models = 1,
         total_daily_downloads = 50, avg_daily_downloads_per_model = 50,
         total_cumulative_downloads = 150\<rparr> :: (nat \<times> nat \<times> nat) author_row) \<in> set (author_daily_downloads ([\<lparr>snapshot_date = (2025, 1, 2), model_id = ''acme/model-a'', author = ''acme'',
          downloadsAllTime = 150, daily_downloads = Some 50\<rparr>,
        \<lparr>snapshot_date = (2025, 1, 2), model_id = ''acme/model-b'', author = ''acme'',
          downloadsAllTime = 80, daily_downloads = Some (- 20)\<rparr>]
       :: (nat \<times> nat \<times> nat) daily_row list))
   \<and> card (model_id ` {r \<in> set ([\<lparr>snapshot_date = (2025, 1, 2), model_id = ''acme/model-a'', author = ''acme'',
          downloadsAllTime = 150, daily_downloads = Some 50\<rparr>,
        \<lparr>snapshot_date = (2025, 1, 2), model_id = ''acme/model-b'', author = ''acme'',
          downloadsAllTime = 80, daily_downloads = Some (- 20)\<rparr>]
       :: (nat \<times> nat \<times> nat) daily_row list). snapshot_date r = (2025, 1, 2) \<and> author r = ''acme''
                                  \<and> nonneg_delta r}) = 1
   \<and> card (model_id ` {r \<in> set ([\<lparr>snapshot_date = (2025, 1, 2), model_id = ''acme/model-a'', author = ''acme'',
          downloadsAllTime = 150, daily_downloads = Some 50\<rparr>,
        \<lparr>snapshot_date = (2025, 1, 2), model_id = ''acme/model-b'', author = ''acme'',
          downloadsAllTime = 80, daily_downloads = Some (- 20)\<rparr>]
       :: (nat \<times> nat \<times> nat) daily_row list). snapshot_date r = (2025, 1, 2) \<and> author r = ''acme''}) = 2"
proof -
  let ?daily = "([\<lparr>snapshot_date = (2025, 1, 2), model_id = ''acme/model-a'', author = ''acme'',
          downloadsAllTime = 150, daily_downloads = Some 50\<rparr>,
        \<lparr>snapshot_date = (2025, 1, 2), model_id = ''acme/model-b'', author = ''acme'',
          downloadsAllTime = 80, daily_downloads = Some (- 20)\<rparr>]
       :: (nat \<times> nat \<times> nat) daily_row list)"
  let ?g = "(\<lparr>agg_snapshot_date = (2025, 1, 2), agg_author = ''acme'', n_models = 1,
         total_daily_downloads = 50, avg_daily_downloads_per_model = 50,
         total_cumulative_downloads = 150\<rparr> :: (nat \<times> nat \<times> nat) author_row)"
  have h: "?g \<in> set (author_daily_downloads ?daily)" by code_simp
  have "n_models ?g
        = card (model_id ` {r \<in> set ?daily. snapshot_date r = agg_snapshot_date ?g
                                         \<and> author r = agg_author ?g \<and> nonneg_delta r})
        \<and> 0 < n_models ?g"
    using C4_n_models_counts_rows_kept [where g = ?g and daily = ?daily, THEN conjunct1] h
    by (elim impE) assumption
  then have c: "card (model_id ` {r \<in> set ?daily. snapshot_date r = (2025, 1, 2)
                                         \<and> author r = ''acme'' \<and> nonneg_delta r}) = 1"
    by simp
  have e: "card (model_id ` {r \<in> set ?daily. snapshot_date r = (2025, 1, 2)
                                         \<and> author r = ''acme''}) = 2"
    by code_simp
  from h c e show ?thesis by (intro conjI)
qed

text \<open>
  Claim C4 as stated fails: with two models of one author whose counters go from 100 to
  150 and from 100 to 80, the delta table holds both models on the second date, and the
  group of that date counts one model.
\<close>

theorem C4_negative_delta_model_not_counted:
  "process_historical_data iso_date ''data''
     [(''models-20250101-aaaaaaa.parquet'',
        \<lparr>pq_columns = [''id'', ''downloadsAllTime''],
          pq_rows = [\<lparr>pq_id = Some ''acme/model-a'', pq_likes = None, pq_downloads = None,
                      pq_downloadsAllTime = Some 100\<rparr>,
                    \<lparr>pq_id = Some ''acme/model-b'', pq_likes = None, pq_downloads = None,
                      pq_downloadsAllTime = Some 100\<rparr>]\<rparr>),
      (''models-20250102-bbbbbbb.parquet'',
        \<lparr>pq_columns = [''id'', ''downloadsAllTime''],
          pq_rows = [\<lparr>pq_id = Some ''acme/model-a'', pq_likes = None, pq_downloads = None,
                      pq_downloadsAllTime = Some 150\<rparr>,
                    \<lparr>pq_id = Some ''acme/model-b'', pq_likes = None, pq_downloads = None,
                      pq_downloadsAllTime = Some 80\<rparr>]\<rparr>)]
   = Inr \<lparr>tbl_daily_model_downloads =
            [\<lparr>snapshot_date = (2025, 1, 1), model_id = ''acme/model-a'', author = ''acme'',
               downloadsAllTime = 100, daily_downloads = None\<rparr>,
             \<lparr>snapshot_date = (2025, 1, 2), model_id = ''acme/model-a'', author = ''acme'',
               downloadsAllTime = 150, daily_downloads = Some 50\<rparr>,
             \<lparr>snapshot_date = (2025, 1, 1), model_id = ''acme/model-b'', author = ''acme'',
               downloadsAllTime = 100, daily_downloads = None\<rparr>,
             \<lparr>snapshot_date = (2025, 1, 2), model_id = ''acme/model-b'', author = ''acme'',
               downloadsAllTime = 80, daily_downloads = Some (- 20)\<rparr>],
          tbl_author_daily_downloads =
            [\<lparr>agg_snapshot_date = (2025, 1, 2), agg_author = ''acme'', n_models = 1,
               total_daily_downloads = 50, avg_daily_downloads_per_model = 50,
               total_cumulative_downloads = 150\<rparr>]\<rparr>"
  by code_simp

subsection \<open>The order of the final table\<close>

text \<open>
  Claim C10, as amended. The aggregate table of the DuckDB engine is ordered by ascending
  snapshot date and, within a date, by descending \<^verbatim>\<open>total_daily_downloads\<close>. The table of
  the pandas engine is ordered by ascending author and, within an author, by ascending
  snapshot date, with one row per pair.
\<close>

theorem C10_output_order:
  fixes daily :: "('d::linorder) daily_row list"
  shows
  "sorted_wrt (\<lambda>g h. agg_snapshot_date g < agg_snapshot_date h
                     \<or> (agg_snapshot_date g = agg_snapshot_date h
                         \<and> total_daily_downloads h \<le> total_daily_downloads g))
     (author_daily_downloads daily)
   \<and> sorted (map (\<lambda>g. (pd_author g, pd_snapshot_date g)) (groupby_sum df))
   \<and> distinct (map (\<lambda>g. (pd_author g, pd_snapshot_date g)) (groupby_sum df))"
  by (intro conjI output_sorted groupby_sum_sorted)

text \<open>
  Claim C10 as stated fails on the pandas engine: with two authors observed on two dates,
  the second date of the first author comes before the first date of the second author.
\<close>

theorem C10_pandas_output_ordered_by_author:
  "analyze_historical_data
     [\<lparr>csv_id = Some ''alpha/m'', csv_likes = None, csv_downloads = None,
        csv_downloadsAllTime = Some 10, csv_snapshot_date = ''2025-01-01''\<rparr>,
      \<lparr>csv_id = Some ''beta/m'', csv_likes = None, csv_downloads = None,
        csv_downloadsAllTime = Some 20, csv_snapshot_date = ''2025-01-01''\<rparr>,
      \<lparr>csv_id = Some ''alpha/m'', csv_likes = None, csv_downloads = None,
        csv_downloadsAllTime = Some 15, csv_snapshot_date = ''2025-01-02''\<rparr>,
      \<lparr>csv_id = Some ''beta/m'', csv_likes = None, csv_downloads = None,
        csv_downloadsAllTime = Some 27, csv_snapshot_date = ''2025-01-02''\<rparr>]
     None
   = Inr \<lparr>df_subset =
            [\<lparr>df_id = ''alpha/m'', df_downloadsAllTime = Some 10,
               df_snapshot_date = ''2025-01-01'', df_author = ''alpha'',
               df_daily_downloads = Some 10\<rparr>,
             \<lparr>df_id = ''alpha/m'', df_downloadsAllTime = Some 15,
               df_snapshot_date = ''2025-01-02'', df_author = ''alpha'',
               df_daily_downloads = Some 5\<rparr>,
             \<lparr>df_id = ''beta/m'', df_downloadsAllTime = Some 20,
               df_snapshot_date = ''2025-01-01'', df_author = ''beta'',
               df_daily_downloads = Some 20\<rparr>,
             \<lparr>df_id = ''beta/m'', df_downloadsAllTime = Some 27,
               df_snapshot_date = ''2025-01-02'', df_author = ''beta'',
               df_daily_downloads = Some 7\<rparr>],
          author_daily =
            [\<lparr>pd_author = ''alpha'', pd_snapshot_date = ''2025-01-01'',
               pd_total_daily_downloads = 10\<rparr>,
             \<lparr>pd_author = ''alpha'', pd_snapshot_date = ''2025-01-02'',
               pd_total_daily_downloads = 5\<rparr>,
             \<lparr>pd_author = ''beta'', pd_snapshot_date = ''2025-01-01'',
               pd_total_daily_downloads = 20\<rparr>,
             \<lparr>pd_author = ''beta'', pd_snapshot_date = ''2025-01-02'',
               pd_total_daily_downloads = 7\<rparr>]\<rparr>"
  by code_simp

subsection \<open>Negative deltas\<close>

text \<open>
  Claim C2, as amended. In the DuckDB engine a negative delta stays in the delta record as
  it was computed, and the aggregation leaves that row out: the aggregate table is the
  one computed from the rows whose delta is neither \<^verbatim>\<open>NULL\<close> nor negative, the total of
  a group is the sum of the deltas of those rows and the average is that total divided
  by their number. In the pandas engine a negative delta is replaced by 0 in the delta
  record itself: where both counters are present the record holds the larger of 0 and
  the difference. The model is observed once per date.
\<close>

theorem C2_negative_delta_policy:
  fixes tbl :: "('d::linorder) snapshot_row list" and daily :: "('d::linorder) daily_row list"
  shows
  "(r \<in> set (daily_model_downloads tbl)
      \<and> distinct (map snapshot_date (filter (\<lambda>q. model_id q = model_id r) tbl))
      \<and> p \<in> set tbl \<and> model_id p = model_id r \<and> snapshot_date p < snapshot_date r
      \<and> (\<forall>q\<in>set tbl. model_id q = model_id r \<longrightarrow>
             \<not> (snapshot_date p < snapshot_date q \<and> snapshot_date q < snapshot_date r))
      \<and> downloadsAllTime r < downloadsAllTime p
    \<longrightarrow> daily_downloads r = Some (downloadsAllTime r - downloadsAllTime p)
        \<and> \<not> nonneg_delta r)
   \<and> author_daily_downloads daily = author_daily_downloads (filter nonneg_delta daily)
   \<and> (g \<in> set (author_daily_downloads daily) \<longrightarrow>
        total_daily_downloads g
          = sum_list (map (\<lambda>r. the (daily_downloads r))
              (filter (\<lambda>r. snapshot_date r = agg_snapshot_date g \<and> author r = agg_author g
                            \<and> nonneg_delta r) daily))
        \<and> avg_daily_downloads_per_model g
          = real_of_int (total_daily_downloads g)
            / real (length (filter (\<lambda>r. snapshot_date r = agg_snapshot_date g
                                         \<and> author r = agg_author g \<and> nonneg_delta r) daily)))
   \<and> (r' \<in> set (cleaned_daily frame)
      \<and> distinct (map df_snapshot_date (filter (\<lambda>q. df_id q = df_id r') frame))
      \<and> p' \<in> set frame \<and> df_id p' = df_id r' \<and> df_snapshot_date p' < df_snapshot_date r'
      \<and> (\<forall>q\<in>set frame. df_id q = df_id r' \<longrightarrow>
             \<not> (df_snapshot_date p' < df_snapshot_date q
                \<and> df_snapshot_date q < df_snapshot_date r'))
      \<and> df_downloadsAllTime r' = Some a \<and> df_downloadsAllTime p' = Some b
    \<longrightarrow> df_daily_downloads r' = Some (max 0 (a - b)))"
proof (intro conjI impI)
  assume h: "r \<in> set (daily_model_downloads tbl)
      \<and> distinct (map snapshot_date (filter (\<lambda>q. model_id q = model_id r) tbl))
      \<and> p \<in> set tbl \<and> model_id p = model_id r \<and> snapshot_date p < snapshot_date r
      \<and> (\<forall>q\<in>set tbl. model_id q = model_id r \<longrightarrow>
             \<not> (snapshot_date p < snapshot_date q \<and> snapshot_date q < snapshot_date r))
      \<and> downloadsAllTime r < downloadsAllTime p"
  then show d: "daily_downloads r = Some (downloadsAllTime r - downloadsAllTime p)"
    using duckdb_later_observation [of r tbl p] by blast
  from h have "downloadsAllTime r - downloadsAllTime p < 0" by simp
  with d show "\<not> nonneg_delta r" by (simp add: nonneg_delta_def)
next
  show "author_daily_downloads daily = author_daily_downloads (filter nonneg_delta daily)"
    by (simp add: author_daily_downloads_kept)
next
  assume g: "g \<in> set (author_daily_downloads daily)"
  let ?grp = "filter (\<lambda>r. snapshot_date r = agg_snapshot_date g \<and> author r = agg_author g
                           \<and> nonneg_delta r) daily"
  have eq: "g = aggregate_group (agg_snapshot_date g, agg_author g) ?grp"
    using g by (rule output_group_key(1))
  have "total_daily_downloads g
        = total_daily_downloads (aggregate_group (agg_snapshot_date g, agg_author g) ?grp)"
    using eq by simp
  then show t: "total_daily_downloads g = sum_list (map (\<lambda>r. the (daily_downloads r)) ?grp)"
    by (simp add: aggregate_group_def)
  have "avg_daily_downloads_per_model g
        = avg_daily_downloads_per_model
            (aggregate_group (agg_snapshot_date g, agg_author g) ?grp)"
    using eq by simp
  then show "avg_daily_downloads_per_model g
             = real_of_int (total_daily_downloads g) / real (length ?grp)"
    by (simp add: aggregate_group_def t)
next
  assume "r' \<in> set (cleaned_daily frame)
      \<and> distinct (map df_snapshot_date (filter (\<lambda>q. df_id q = df_id r') frame))
      \<and> p' \<in> set frame \<and> df_id p' = df_id r' \<and> df_snapshot_date p' < df_snapshot_date r'
      \<and> (\<forall>q\<in>set frame. df_id q = df_id r' \<longrightarrow>
             \<not> (df_snapshot_date p' < df_snapshot_date q
                \<and> df_snapshot_date q < df_snapshot_date r'))
      \<and> df_downloadsAllTime r' = Some a \<and> df_downloadsAllTime p' = Some b"
  then show "df_daily_downloads r' = Some (max 0 (a - b))"
    using pandas_cleaned_later_observation [of r' frame p' a b] by blast
qed

theorem C2_negative_delta_policy_witness:
  "(\<lparr>snapshot_date = (2025, 1, 3), model_id = ''acme/model-a'', author = ''acme'',
          downloadsAllTime = 130, daily_downloads = Some (- 20)\<rparr>
        :: (nat \<times> nat \<times> nat) daily_row) \<in> set (daily_model_downloads ([\<lparr>snapshot_date = (2025, 1, 1), model_id = ''acme/model-a'', author = ''acme'',
          downloadsAllTime = 100\<rparr>,
        \<lparr>snapshot_date = (2025, 1, 2), model_id = ''acme/model-a'', author = ''acme'',
          downloadsAllTime = 150\<rparr>,
        \<lparr>snapshot_date = (2025, 1, 3), model_id = ''acme/model-a'', author = ''acme'',
          downloadsAllTime = 130\<rparr>] :: (nat \<times> nat \<times> nat) snapshot_row list))
   \<and> daily_downloads (\<lparr>snapshot_date = (2025, 1, 3), model_id = ''acme/model-a'', author = ''acme'',
          downloadsAllTime = 130, daily_downloads = Some (- 20)\<rparr>
        :: (nat \<times> nat \<times> nat) daily_row) = Some (130 - 150)
   \<and> \<not> nonneg_delta (\<lparr>snapshot_date = (2025, 1, 3), model_id = ''acme/model-a'', author = ''acme'',
          downloadsAllTime = 130, daily_downloads = Some (- 20)\<rparr>
        :: (nat \<times> nat \<times> nat) daily_row)
   \<and> (\<lparr>agg_snapshot_date = (2025, 1, 2), agg_author = ''acme'', n_models = 1,
         total_daily_downloads = 50, avg_daily_downloads_per_model = 50,
         total_cumulative_downloads = 150\<rparr> :: (nat \<times> nat \<times> nat) author_row) \<in> set (author_daily_downloads ([\<lparr>snapshot_date = (2025, 1, 2), model_id = ''acme/model-a'', author = ''acme'',
          downloadsAllTime = 150, daily_downloads = Some 50\<rparr>,
        \<lparr>snapshot_date = (2025, 1, 2), model_id = ''acme/model-b'', author = ''acme'',
          downloadsAllTime = 80, daily_downloads = Some (- 20)\<rparr>]
       :: (nat \<times> nat \<times> nat) daily_row list))
   \<and> sum_list (map (\<lambda>r. the (daily_downloads r))
        (filter (\<lambda>r. snapshot_date r = (2025, 1, 2) \<and> author r = ''acme'' \<and> nonneg_delta r)
           ([\<lparr>snapshot_date = (2025, 1, 2), model_id = ''acme/model-a'', author = ''acme'',
          downloadsAllTime = 150, daily_downloads = Some 50\<rparr>,
        \<lparr>snapshot_date = (2025, 1, 2), model_id = ''acme/model-b'', author = ''acme'',
          downloadsAllTime = 80, daily_downloads = Some (- 20)\<rparr>]
       :: (nat \<times> nat \<times> nat) daily_row list))) = 50
   \<and> \<lparr>df_id = ''acme/model-a'', df_downloadsAllTime = Some 130,
          df_snapshot_date = ''2025-01-03'', df_author = ''acme'', df_daily_downloads = Some 0\<rparr> \<in> set (cleaned_daily [\<lparr>df_id = ''acme/model-a'', df_downloadsAllTime = Some 100,
          df_snapshot_date = ''2025-01-01'', df_author = ''acme'', df_daily_downloads = None\<rparr>,
        \<lparr>df_id = ''acme/model-a'', df_downloadsAllTime = Some 150,
          df_snapshot_date = ''2025-01-02'', df_author = ''acme'', df_daily_downloads = None\<rparr>,
        \<lparr>df_id = ''acme/model-a'', df_downloadsAllTime = Some 130,
          df_snapshot_date = ''2025-01-03'', df_author = ''acme'', df_daily_downloads = None\<rparr>])
   \<and> df_daily_downloads \<lparr>df_id = ''acme/model-a'', df_downloadsAllTime = Some 130,
          df_snapshot_date = ''2025-01-03'', df_author = ''acme'', df_daily_downloads = Some 0\<rparr> = Some (max 0 (130 - 150))"
proof -
  let ?tbl = "([\<lparr>snapshot_date = (2025, 1, 1), model_id = ''acme/model-a'', author = ''acme'',
          downloadsAllTime = 100\<rparr>,
        \<lparr>snapshot_date = (2025, 1, 2), model_id = ''acme/model-a'', author = ''acme'',
          downloadsAllTime = 150\<rparr>,
        \<lparr>snapshot_date = (2025, 1, 3), model_id = ''acme/model-a'', author = ''acme'',
          downloadsAllTime = 130\<rparr>] :: (nat \<times> nat \<times> nat) snapshot_row list)"
  let ?r = "(\<lparr>snapshot_date = (2025, 1, 3), model_id = ''acme/model-a'', author = ''acme'',
          downloadsAllTime = 130, daily_downloads = Some (- 20)\<rparr>
        :: (nat \<times> nat \<times> nat) daily_row)"
  let ?p = "(\<lparr>snapshot_date = (2025, 1, 2), model_id = ''acme/model-a'', author = ''acme'',
          downloadsAllTime = 150\<rparr> :: (nat \<times> nat \<times> nat) snapshot_row)"
  let ?daily = "([\<lparr>snapshot_date = (2025, 1, 2), model_id = ''acme/model-a'', author = ''acme'',
          downloadsAllTime = 150, daily_downloads = Some 50\<rparr>,
        \<lparr>snapshot_date = (2025, 1, 2), model_id = ''acme/model-b'', author = ''acme'',
          downloadsAllTime = 80, daily_downloads = Some (- 20)\<rparr>]
       :: (nat \<times> nat \<times> nat) daily_row list)"
  let ?g = "(\<lparr>agg_snapshot_date = (2025, 1, 2), agg_author = ''acme'', n_models = 1,
         total_daily_downloads = 50, avg_daily_downloads_per_model = 50,
         total_cumulative_downloads = 150\<rparr> :: (nat \<times> nat \<times> nat) author_row)"
  let ?frame = "[\<lparr>df_id = ''acme/model-a'', df_downloadsAllTime = Some 100,
          df_snapshot_date = ''2025-01-01'', df_author = ''acme'', df_daily_downloads = None\<rparr>,
        \<lparr>df_id = ''acme/model-a'', df_downloadsAllTime = Some 150,
          df_snapshot_date = ''2025-01-02'', df_author = ''acme'', df_daily_downloads = None\<rparr>,
        \<lparr>df_id = ''acme/model-a'', df_downloadsAllTime = Some 130,
          df_snapshot_date = ''2025-01-03'', df_author = ''acme'', df_daily_downloads = None\<rparr>]"
  let ?r' = "\<lparr>df_id = ''acme/model-a'', df_downloadsAllTime = Some 130,
          df_snapshot_date = ''2025-01-03'', df_author = ''acme'', df_daily_downloads = Some 0\<rparr>"
  let ?p' = "\<lparr>df_id = ''acme/model-a'', df_downloadsAllTime = Some 150,
          df_snapshot_date = ''2025-01-02'', df_author = ''acme'', df_daily_downloads = None\<rparr>"
  have h1: "?r \<in> set (daily_model_downloads ?tbl)" by code_simp
  have h2: "distinct (map snapshot_date (filter (\<lambda>q. model_id q = model_id ?r) ?tbl))"
    by code_simp
  have h3: "?p \<in> set ?tbl \<and> model_id ?p = model_id ?r \<and> snapshot_date ?p < snapshot_date ?r"
    by code_simp
  have h4: "\<forall>q\<in>set ?tbl. model_id q = model_id ?r \<longrightarrow>
             \<not> (snapshot_date ?p < snapshot_date q \<and> snapshot_date q < snapshot_date ?r)"
    by code_simp
  have h5: "downloadsAllTime ?r < downloadsAllTime ?p" by simp
  have k: "?g \<in> set (author_daily_downloads ?daily)" by code_simp
  have g1: "?r' \<in> set (cleaned_daily ?frame)" by code_simp
  have g2: "distinct (map df_snapshot_date (filter (\<lambda>q. df_id q = df_id ?r') ?frame))"
    by code_simp
  have g3: "?p' \<in> set ?frame \<and> df_id ?p' = df_id ?r' \<and> df_snapshot_date ?p' < df_snapshot_date ?r'"
    by code_simp
  have g4: "\<forall>q\<in>set ?frame. df_id q = df_id ?r' \<longrightarrow>
             \<not> (df_snapshot_date ?p' < df_snapshot_date q
                \<and> df_snapshot_date q < df_snapshot_date ?r')"
    by code_simp
  have g5: "df_downloadsAllTime ?r' = Some 130 \<and> df_downloadsAllTime ?p' = Some 150" by simp
  note inst = C2_negative_delta_policy
    [where r = ?r and tbl = ?tbl and p = ?p and g = ?g and daily = ?daily
       and r' = ?r' and frame = ?frame and p' = ?p' and a = 130 and b = 150]
  have "daily_downloads ?r = Some (downloadsAllTime ?r - downloadsAllTime ?p)
        \<and> \<not> nonneg_delta ?r"
    using inst [THEN conjunct1] h1 h2 h3 h4 h5
    by (elim impE) (intro conjI; elim conjE; assumption)
  then have c1: "daily_downloads ?r = Some (130 - 150) \<and> \<not> nonneg_delta ?r" by simp
  have "total_daily_downloads ?g
          = sum_list (map (\<lambda>r. the (daily_downloads r))
              (filter (\<lambda>r. snapshot_date r = agg_snapshot_date ?g \<and> author r = agg_author ?g
                            \<and> nonneg_delta r) ?daily))
        \<and> avg_daily_downloads_per_model ?g
          = real_of_int (total_daily_downloads ?g)
            / real (length (filter (\<lambda>r. snapshot_date r = agg_snapshot_date ?g
                                         \<and> author r = agg_author ?g \<and> nonneg_delta r) ?daily))"
    using inst [THEN conjunct2, THEN conjunct2, THEN conjunct1] k
    by (elim impE) assumption
  then have "total_daily_downloads ?g
          = sum_list (map (\<lambda>r. the (daily_downloads r))
              (filter (\<lambda>r. snapshot_date r = agg_snapshot_date ?g \<and> author r = agg_author ?g
                            \<and> nonneg_delta r) ?daily))" ..
  then have c2: "sum_list (map (\<lambda>r. the (daily_downloads r))
        (filter (\<lambda>r. snapshot_date r = (2025, 1, 2) \<and> author r = ''acme'' \<and> nonneg_delta r)
           ?daily)) = 50"
    by (simp only: author_row.simps)
  have c3: "df_daily_downloads ?r' = Some (max 0 (130 - 150))"
    using inst [THEN conjunct2, THEN conjunct2, THEN conjunct2] g1 g2 g3 g4 g5
    by (elim impE) (intro conjI; elim conjE; assumption)
  from h1 c1 [THEN conjunct1] c1 [THEN conjunct2] k c2 g1 c3 show ?thesis by (intro conjI)
qed

text \<open>
  Claim C2 as stated fails on the pandas engine: a model whose counter goes from 150 to
  130 has the delta 0, not -20, in its delta record.
\<close>

theorem C2_pandas_negative_delta_becomes_zero:
  "analyze_historical_data
     [\<lparr>csv_id = Some ''acme/model-a'', csv_likes = None, csv_downloads = None,
        csv_downloadsAllTime = Some 150, csv_snapshot_date = ''2025-01-02''\<rparr>,
      \<lparr>csv_id = Some ''acme/model-a'', csv_likes = None, csv_downloads = None,
        csv_downloadsAllTime = Some 130, csv_snapshot_date = ''2025-01-03''\<rparr>]
     None
   = Inr \<lparr>df_subset =
            [\<lparr>df_id = ''acme/model-a'', df_downloadsAllTime = Some 150,
               df_snapshot_date = ''2025-01-02'', df_author = ''acme'',
               df_daily_downloads = Some 150\<rparr>,
             \<lparr>df_id = ''acme/model-a'', df_downloadsAllTime = Some 130,
               df_snapshot_date = ''2025-01-03'', df_author = ''acme'',
               df_daily_downloads = Some 0\<rparr>],
          author_daily =
            [\<lparr>pd_author = ''acme'', pd_snapshot_date = ''2025-01-02'',
               pd_total_daily_downloads = 150\<rparr>,
             \<lparr>pd_author = ''acme'', pd_snapshot_date = ''2025-01-03'',
               pd_total_daily_downloads = 0\<rparr>]\<rparr>"
  by code_simp

subsection \<open>The records of the output tables\<close>





lemma groupby_diff_obs:
  "map df_id (groupby_diff prev rs) = map df_id rs"
  "map df_snapshot_date (groupby_diff prev rs) = map df_snapshot_date rs"
  "map df_downloadsAllTime (groupby_diff prev rs) = map df_downloadsAllTime rs"
  by (induction rs arbitrary: prev) simp_all










subsection \<open>The difference to the previous record\<close>

text \<open>
  A row whose counter is \<^verbatim>\<open>NULL\<close> does not pass the load filter of the DuckDB engine
  and has no delta record: with the counters 5, \<^verbatim>\<open>NULL\<close> and 9 on three dates, the third
  date's delta is taken against the first date.
\<close>

lemma duckdb_null_counter_row_has_no_record:
  "process_historical_data iso_date ''data''
     [(''models-20250101-aaaaaaa.parquet'',
        \<lparr>pq_columns = [''id'', ''downloadsAllTime''],
          pq_rows = [\<lparr>pq_id = Some ''acme/model-a'', pq_likes = None, pq_downloads = None,
                      pq_downloadsAllTime = Some 5\<rparr>]\<rparr>),
      (''models-20250102-bbbbbbb.parquet'',
        \<lparr>pq_columns = [''id'', ''downloadsAllTime''],
          pq_rows = [\<lparr>pq_id = Some ''acme/model-a'', pq_likes = None, pq_downloads = None,
                      pq_downloadsAllTime = None\<rparr>]\<rparr>),
      (''models-20250103-ccccccc.parquet'',
        \<lparr>pq_columns = [''id'', ''downloadsAllTime''],
          pq_rows = [\<lparr>pq_id = Some ''acme/model-a'', pq_likes = None, pq_downloads = None,
                      pq_downloadsAllTime = Some 9\<rparr>]\<rparr>)]
   = Inr \<lparr>tbl_daily_model_downloads =
            [\<lparr>snapshot_date = (2025, 1, 1), model_id = ''acme/model-a'', author = ''acme'',
               downloadsAllTime = 5, daily_downloads = None\<rparr>,
             \<lparr>snapshot_date = (2025, 1, 3), model_id = ''acme/model-a'', author = ''acme'',
               downloadsAllTime = 9, daily_downloads = Some 4\<rparr>],
          tbl_author_daily_downloads =
            [\<lparr>agg_snapshot_date = (2025, 1, 3), agg_author = ''acme'', n_models = 1,
               total_daily_downloads = 4, avg_daily_downloads_per_model = 4,
               total_cumulative_downloads = 9\<rparr>]\<rparr>"
  by code_simp




subsection \<open>Rows without an author prefix\<close>
























end
